theory Spec2Isabelle
  imports Complex_Main
begin

section \<open>The SMS-to-Telegram forwarding server (server.js)\<close>

text \<open>
  A shallow embedding of the Express application of \<^verbatim>\<open>src/server.js\<close>: the access gate
  \<^verbatim>\<open>checkApiKey\<close>, the in-memory registry \<^verbatim>\<open>devices\<close>, the relay function
  \<^verbatim>\<open>sendToTelegram\<close> and the route handlers. A request is handled in one step that takes
  the registry and the list of outbound POSTs made so far and returns the HTTP response
  with both updated. What the JavaScript engine and the libraries decide (string
  conversion of non-strings, \<^verbatim>\<open>parseInt\<close>, date formatting, the clock, the outcome of
  \<^verbatim>\<open>axios.post\<close>, the environment variable) is read from a record \<open>env\<close>.

  The model starts where Express enters the routing table of the file: the library
  middlewares in front of it (\<^verbatim>\<open>cors\<close>, \<^verbatim>\<open>body-parser\<close>, \<^verbatim>\<open>express-rate-limit\<close> on
  \<^verbatim>\<open>/api\<close>) have parsed the body and passed the request on.
\<close>

subsection \<open>JavaScript values\<close>

text \<open>
  A number is its numeric value; \<open>-0\<close> is identified with \<open>0\<close> (both are falsy and
  \<^verbatim>\<open>===\<close> each other). A string is the list of its UTF-8 bytes.
\<close>

datatype jsnum = Finite rat | PosInfinity | NegInfinity | NaN

datatype jsval =
    JUndefined
  | JNull
  | JBool bool
  | JNum jsnum
  | JStr string
  | JArr "jsval list"
  | JObj "(string \<times> jsval) list"

text \<open>ToBoolean, as used by \<^verbatim>\<open>!x\<close> and \<^verbatim>\<open>x ? a : b\<close>.\<close>

fun truthy :: "jsval \<Rightarrow> bool" where
  "truthy JUndefined = False"
| "truthy JNull = False"
| "truthy (JBool b) = b"
| "truthy (JNum n) = (n \<noteq> Finite 0 \<and> n \<noteq> NaN)"
| "truthy (JStr s) = (s \<noteq> [])"
| "truthy (JArr xs) = True"
| "truthy (JObj kvs) = True"

text \<open>
  Strict equality \<^verbatim>\<open>===\<close> between a value held by the process (a registry field, the
  configured key) and a value of the current request. Arrays and objects are compared
  by identity, and every request body is parsed into fresh ones, so they are never
  equal to a value stored by an earlier request.
\<close>

fun strict_eq :: "jsval \<Rightarrow> jsval \<Rightarrow> bool" where
  "strict_eq JUndefined JUndefined = True"
| "strict_eq JNull JNull = True"
| "strict_eq (JBool a) (JBool b) = (a = b)"
| "strict_eq (JNum a) (JNum b) = (a = b \<and> a \<noteq> NaN)"
| "strict_eq (JStr a) (JStr b) = (a = b)"
| "strict_eq _ _ = False"

text \<open>
  What a client reads back from \<^verbatim>\<open>JSON.stringify(v)\<close>, which \<^verbatim>\<open>res.json\<close> applies to
  its argument: an infinite number or \<^verbatim>\<open>NaN\<close> is written \<^verbatim>\<open>null\<close>, as is \<^verbatim>\<open>undefined\<close>
  inside an array; a property whose value is \<^verbatim>\<open>undefined\<close> is left out; every other
  value, a string in particular, is written as it is.
\<close>

fun JSON_stringify :: "jsval \<Rightarrow> jsval" where
  "JSON_stringify JUndefined = JNull"
| "JSON_stringify (JNum n) = (case n of Finite q \<Rightarrow> JNum n | _ \<Rightarrow> JNull)"
| "JSON_stringify (JArr xs) = JArr (map JSON_stringify xs)"
| "JSON_stringify (JObj kvs) =
     JObj (map (\<lambda>kv. (fst kv, JSON_stringify (snd kv)))
             (filter (\<lambda>kv. snd kv \<noteq> JUndefined) kvs))"
| "JSON_stringify v = v"

definition json_property :: "string \<Rightarrow> jsval \<Rightarrow> (string \<times> jsval) list" where
  "json_property k v = (if v = JUndefined then [] else [(k, JSON_stringify v)])"

subsection \<open>Errors, the environment, the state\<close>

text \<open>A thrown \<^verbatim>\<open>Error\<close> object, with its \<^verbatim>\<open>message\<close>.\<close>

datatype error = Error string

fun error_message :: "error \<Rightarrow> string" where
  "error_message (Error m) = m"

text \<open>The registry entry \<^verbatim>\<open>{ deviceId, botToken, chatId }\<close>.\<close>

record device =
  deviceId :: jsval
  botToken :: jsval
  chatId :: jsval

text \<open>
  One outbound \<^verbatim>\<open>axios.post(telegramApi, { chat_id, text, parse_mode })\<close>: \<open>url\<close> is
  its first argument and \<open>text_field\<close> the key \<^verbatim>\<open>text\<close> of its body.
\<close>

record relay_call =
  url :: string
  chat_id :: jsval
  text_field :: jsval
  parse_mode :: string

text \<open>
  What the handlers read from outside the file:
  \<^item> \<open>API_KEY\<close>: \<^verbatim>\<open>process.env.API_KEY\<close>, \<open>None\<close> when unset;
  \<^item> \<open>toPrimitiveString\<close>: the engine's string conversion of a value that is not a
    string, as a template literal and \<^verbatim>\<open>parseInt\<close> apply it; it can throw (a TypeError
    for an object whose \<^verbatim>\<open>toString\<close> is not callable);
  \<^item> \<open>parseInt\<close> on a string, \<open>toLocaleString\<close> for
    \<^verbatim>\<open>new Date(t).toLocaleString('ru-RU')\<close>, and \<open>now\<close> for the time value of
    \<^verbatim>\<open>new Date()\<close>;
  \<^item> \<open>axios_post\<close>: the outcome of the POST, \<open>None\<close> when it resolves and
    \<open>Some m\<close> when it rejects with an error whose message is \<open>m\<close> (network error or
    non-2xx status).
\<close>

record env =
  API_KEY :: "string option"
  toPrimitiveString :: "jsval \<Rightarrow> error + string"
  parseInt :: "string \<Rightarrow> jsnum"
  toLocaleString :: "jsnum \<Rightarrow> string"
  now :: jsnum
  axios_post :: "relay_call \<Rightarrow> string option"

text \<open>
  The process state: the array \<^verbatim>\<open>devices\<close>, and the outbound POSTs attempted so far
  (a history, so that "no relay call" can be stated).
\<close>

record state =
  devices :: "device list"
  outbound :: "relay_call list"

definition initial :: state where
  "initial = \<lparr>devices = [], outbound = []\<rparr>"

text \<open>
  The route Express matched for the request, the \<^verbatim>\<open>X-Api-Key\<close> header and the parsed
  body. \<open>Unmatched\<close> is every method and path that reaches \<^verbatim>\<open>app.use('*', ...)\<close>.
\<close>

datatype route = SendToTelegram | RegisterDevice | ProcessSms | Ping | Root | Unmatched

record request =
  route :: route
  x_api_key :: "string option"
  body :: "string \<rightharpoonup> jsval"

record response =
  status :: nat
  json :: "(string \<times> jsval) list"

text \<open>Reading a property of \<^verbatim>\<open>req.body\<close>: \<^verbatim>\<open>undefined\<close> when it is absent.\<close>

definition field :: "request \<Rightarrow> string \<Rightarrow> jsval" where
  "field req k = (case body req k of None \<Rightarrow> JUndefined | Some v \<Rightarrow> v)"

definition header :: "string option \<Rightarrow> jsval" where
  "header h = (case h of None \<Rightarrow> JUndefined | Some s \<Rightarrow> JStr s)"

subsection \<open>The fixed texts of the file\<close>

definition msg_too_many_requests :: string where
  "msg_too_many_requests = \<comment> \<open>line 29, in English: Too many requests from this IP, please try again later.\<close>
     [CHR 0xD0, CHR 0xA1, CHR 0xD0, CHR 0xBB, CHR 0xD0, CHR 0xB8, CHR 0xD1, CHR 0x88,
     CHR 0xD0, CHR 0xBA, CHR 0xD0, CHR 0xBE, CHR 0xD0, CHR 0xBC] @ '' '' @ [CHR 0xD0,
     CHR 0xBC, CHR 0xD0, CHR 0xBD, CHR 0xD0, CHR 0xBE, CHR 0xD0, CHR 0xB3, CHR 0xD0,
     CHR 0xBE] @ '' '' @ [CHR 0xD0, CHR 0xB7, CHR 0xD0, CHR 0xB0, CHR 0xD0, CHR 0xBF,
     CHR 0xD1, CHR 0x80, CHR 0xD0, CHR 0xBE, CHR 0xD1, CHR 0x81, CHR 0xD0, CHR 0xBE,
     CHR 0xD0, CHR 0xB2] @ '' '' @ [CHR 0xD1, CHR 0x81] @ '' '' @ [CHR 0xD1, CHR 0x8D,
     CHR 0xD1, CHR 0x82, CHR 0xD0, CHR 0xBE, CHR 0xD0, CHR 0xB3, CHR 0xD0, CHR 0xBE] @
     '' IP, '' @ [CHR 0xD0, CHR 0xBF, CHR 0xD0, CHR 0xBE, CHR 0xD0, CHR 0xB6, CHR 0xD0,
     CHR 0xB0, CHR 0xD0, CHR 0xBB, CHR 0xD1, CHR 0x83, CHR 0xD0, CHR 0xB9, CHR 0xD1,
     CHR 0x81, CHR 0xD1, CHR 0x82, CHR 0xD0, CHR 0xB0] @ '', '' @ [CHR 0xD0, CHR 0xBF,
     CHR 0xD0, CHR 0xBE, CHR 0xD0, CHR 0xBF, CHR 0xD1, CHR 0x80, CHR 0xD0, CHR 0xBE,
     CHR 0xD0, CHR 0xB1, CHR 0xD1, CHR 0x83, CHR 0xD0, CHR 0xB9, CHR 0xD1, CHR 0x82,
     CHR 0xD0, CHR 0xB5] @ '' '' @ [CHR 0xD0, CHR 0xBF, CHR 0xD0, CHR 0xBE, CHR 0xD0,
     CHR 0xB7, CHR 0xD0, CHR 0xB6, CHR 0xD0, CHR 0xB5] @ ''.''"

definition msg_invalid_api_key :: string where
  "msg_invalid_api_key = \<comment> \<open>line 44, in English: Invalid API key\<close>
     [CHR 0xD0, CHR 0x9D, CHR 0xD0, CHR 0xB5, CHR 0xD0, CHR 0xB4, CHR 0xD0, CHR 0xB5,
     CHR 0xD0, CHR 0xB9, CHR 0xD1, CHR 0x81, CHR 0xD1, CHR 0x82, CHR 0xD0, CHR 0xB2,
     CHR 0xD0, CHR 0xB8, CHR 0xD1, CHR 0x82, CHR 0xD0, CHR 0xB5, CHR 0xD0, CHR 0xBB,
     CHR 0xD1, CHR 0x8C, CHR 0xD0, CHR 0xBD, CHR 0xD1, CHR 0x8B, CHR 0xD0, CHR 0xB9] @
     '' API-'' @ [CHR 0xD0, CHR 0xBA, CHR 0xD0, CHR 0xBB, CHR 0xD1, CHR 0x8E, CHR 0xD1,
     CHR 0x87]"

definition msg_telegram_error_prefix :: string where
  "msg_telegram_error_prefix = \<comment> \<open>line 69, in English: Error sending to Telegram, colon, space\<close>
     [CHR 0xD0, CHR 0x9E, CHR 0xD1, CHR 0x88, CHR 0xD0, CHR 0xB8, CHR 0xD0, CHR 0xB1,
     CHR 0xD0, CHR 0xBA, CHR 0xD0, CHR 0xB0] @ '' '' @ [CHR 0xD0, CHR 0xBE, CHR 0xD1,
     CHR 0x82, CHR 0xD0, CHR 0xBF, CHR 0xD1, CHR 0x80, CHR 0xD0, CHR 0xB0, CHR 0xD0,
     CHR 0xB2, CHR 0xD0, CHR 0xBA, CHR 0xD0, CHR 0xB8] @ '' '' @ [CHR 0xD0, CHR 0xB2] @
     '' Telegram: ''"

definition msg_missing_send :: string where
  "msg_missing_send = \<comment> \<open>line 83, in English: Required parameters are missing, then the three names\<close>
     [CHR 0xD0, CHR 0x9E, CHR 0xD1, CHR 0x82, CHR 0xD1, CHR 0x81, CHR 0xD1, CHR 0x83,
     CHR 0xD1, CHR 0x82, CHR 0xD1, CHR 0x81, CHR 0xD1, CHR 0x82, CHR 0xD0, CHR 0xB2,
     CHR 0xD1, CHR 0x83, CHR 0xD1, CHR 0x8E, CHR 0xD1, CHR 0x82] @ '' '' @ [CHR 0xD0,
     CHR 0xBE, CHR 0xD0, CHR 0xB1, CHR 0xD1, CHR 0x8F, CHR 0xD0, CHR 0xB7, CHR 0xD0,
     CHR 0xB0, CHR 0xD1, CHR 0x82, CHR 0xD0, CHR 0xB5, CHR 0xD0, CHR 0xBB, CHR 0xD1,
     CHR 0x8C, CHR 0xD0, CHR 0xBD, CHR 0xD1, CHR 0x8B, CHR 0xD0, CHR 0xB5] @ '' '' @
     [CHR 0xD0, CHR 0xBF, CHR 0xD0, CHR 0xB0, CHR 0xD1, CHR 0x80, CHR 0xD0, CHR 0xB0,
     CHR 0xD0, CHR 0xBC, CHR 0xD0, CHR 0xB5, CHR 0xD1, CHR 0x82, CHR 0xD1, CHR 0x80,
     CHR 0xD1, CHR 0x8B] @ '': botToken, chatId, message''"

definition msg_sent :: string where
  "msg_sent = \<comment> \<open>line 91, in English: Message sent successfully\<close>
     [CHR 0xD0, CHR 0xA1, CHR 0xD0, CHR 0xBE, CHR 0xD0, CHR 0xBE, CHR 0xD0, CHR 0xB1,
     CHR 0xD1, CHR 0x89, CHR 0xD0, CHR 0xB5, CHR 0xD0, CHR 0xBD, CHR 0xD0, CHR 0xB8,
     CHR 0xD0, CHR 0xB5] @ '' '' @ [CHR 0xD1, CHR 0x83, CHR 0xD1, CHR 0x81, CHR 0xD0,
     CHR 0xBF, CHR 0xD0, CHR 0xB5, CHR 0xD1, CHR 0x88, CHR 0xD0, CHR 0xBD, CHR 0xD0,
     CHR 0xBE] @ '' '' @ [CHR 0xD0, CHR 0xBE, CHR 0xD1, CHR 0x82, CHR 0xD0, CHR 0xBF,
     CHR 0xD1, CHR 0x80, CHR 0xD0, CHR 0xB0, CHR 0xD0, CHR 0xB2, CHR 0xD0, CHR 0xBB,
     CHR 0xD0, CHR 0xB5, CHR 0xD0, CHR 0xBD, CHR 0xD0, CHR 0xBE]"

definition msg_missing_register :: string where
  "msg_missing_register = \<comment> \<open>line 110, in English: Required parameters are missing, then the three names\<close>
     [CHR 0xD0, CHR 0x9E, CHR 0xD1, CHR 0x82, CHR 0xD1, CHR 0x81, CHR 0xD1, CHR 0x83,
     CHR 0xD1, CHR 0x82, CHR 0xD1, CHR 0x81, CHR 0xD1, CHR 0x82, CHR 0xD0, CHR 0xB2,
     CHR 0xD1, CHR 0x83, CHR 0xD1, CHR 0x8E, CHR 0xD1, CHR 0x82] @ '' '' @ [CHR 0xD0,
     CHR 0xBE, CHR 0xD0, CHR 0xB1, CHR 0xD1, CHR 0x8F, CHR 0xD0, CHR 0xB7, CHR 0xD0,
     CHR 0xB0, CHR 0xD1, CHR 0x82, CHR 0xD0, CHR 0xB5, CHR 0xD0, CHR 0xBB, CHR 0xD1,
     CHR 0x8C, CHR 0xD0, CHR 0xBD, CHR 0xD1, CHR 0x8B, CHR 0xD0, CHR 0xB5] @ '' '' @
     [CHR 0xD0, CHR 0xBF, CHR 0xD0, CHR 0xB0, CHR 0xD1, CHR 0x80, CHR 0xD0, CHR 0xB0,
     CHR 0xD0, CHR 0xBC, CHR 0xD0, CHR 0xB5, CHR 0xD1, CHR 0x82, CHR 0xD1, CHR 0x80,
     CHR 0xD1, CHR 0x8B] @ '': deviceId, botToken, chatId''"

definition msg_device_updated :: string where
  "msg_device_updated = \<comment> \<open>line 124, in English: Device updated successfully\<close>
     [CHR 0xD0, CHR 0xA3, CHR 0xD1, CHR 0x81, CHR 0xD1, CHR 0x82, CHR 0xD1, CHR 0x80,
     CHR 0xD0, CHR 0xBE, CHR 0xD0, CHR 0xB9, CHR 0xD1, CHR 0x81, CHR 0xD1, CHR 0x82,
     CHR 0xD0, CHR 0xB2, CHR 0xD0, CHR 0xBE] @ '' '' @ [CHR 0xD1, CHR 0x83, CHR 0xD1,
     CHR 0x81, CHR 0xD0, CHR 0xBF, CHR 0xD0, CHR 0xB5, CHR 0xD1, CHR 0x88, CHR 0xD0,
     CHR 0xBD, CHR 0xD0, CHR 0xBE] @ '' '' @ [CHR 0xD0, CHR 0xBE, CHR 0xD0, CHR 0xB1,
     CHR 0xD0, CHR 0xBD, CHR 0xD0, CHR 0xBE, CHR 0xD0, CHR 0xB2, CHR 0xD0, CHR 0xBB,
     CHR 0xD0, CHR 0xB5, CHR 0xD0, CHR 0xBD, CHR 0xD0, CHR 0xBE]"

definition msg_device_registered :: string where
  "msg_device_registered = \<comment> \<open>line 135, in English: Device registered successfully\<close>
     [CHR 0xD0, CHR 0xA3, CHR 0xD1, CHR 0x81, CHR 0xD1, CHR 0x82, CHR 0xD1, CHR 0x80,
     CHR 0xD0, CHR 0xBE, CHR 0xD0, CHR 0xB9, CHR 0xD1, CHR 0x81, CHR 0xD1, CHR 0x82,
     CHR 0xD0, CHR 0xB2, CHR 0xD0, CHR 0xBE] @ '' '' @ [CHR 0xD1, CHR 0x83, CHR 0xD1,
     CHR 0x81, CHR 0xD0, CHR 0xBF, CHR 0xD0, CHR 0xB5, CHR 0xD1, CHR 0x88, CHR 0xD0,
     CHR 0xBD, CHR 0xD0, CHR 0xBE] @ '' '' @ [CHR 0xD0, CHR 0xB7, CHR 0xD0, CHR 0xB0,
     CHR 0xD1, CHR 0x80, CHR 0xD0, CHR 0xB5, CHR 0xD0, CHR 0xB3, CHR 0xD0, CHR 0xB8,
     CHR 0xD1, CHR 0x81, CHR 0xD1, CHR 0x82, CHR 0xD1, CHR 0x80, CHR 0xD0, CHR 0xB8,
     CHR 0xD1, CHR 0x80, CHR 0xD0, CHR 0xBE, CHR 0xD0, CHR 0xB2, CHR 0xD0, CHR 0xB0,
     CHR 0xD0, CHR 0xBD, CHR 0xD0, CHR 0xBE]"

definition msg_missing_sms :: string where
  "msg_missing_sms = \<comment> \<open>line 155, in English: Required parameters are missing, then the three names\<close>
     [CHR 0xD0, CHR 0x9E, CHR 0xD1, CHR 0x82, CHR 0xD1, CHR 0x81, CHR 0xD1, CHR 0x83,
     CHR 0xD1, CHR 0x82, CHR 0xD1, CHR 0x81, CHR 0xD1, CHR 0x82, CHR 0xD0, CHR 0xB2,
     CHR 0xD1, CHR 0x83, CHR 0xD1, CHR 0x8E, CHR 0xD1, CHR 0x82] @ '' '' @ [CHR 0xD0,
     CHR 0xBE, CHR 0xD0, CHR 0xB1, CHR 0xD1, CHR 0x8F, CHR 0xD0, CHR 0xB7, CHR 0xD0,
     CHR 0xB0, CHR 0xD1, CHR 0x82, CHR 0xD0, CHR 0xB5, CHR 0xD0, CHR 0xBB, CHR 0xD1,
     CHR 0x8C, CHR 0xD0, CHR 0xBD, CHR 0xD1, CHR 0x8B, CHR 0xD0, CHR 0xB5] @ '' '' @
     [CHR 0xD0, CHR 0xBF, CHR 0xD0, CHR 0xB0, CHR 0xD1, CHR 0x80, CHR 0xD0, CHR 0xB0,
     CHR 0xD0, CHR 0xBC, CHR 0xD0, CHR 0xB5, CHR 0xD1, CHR 0x82, CHR 0xD1, CHR 0x80,
     CHR 0xD1, CHR 0x8B] @ '': deviceId, sender, message''"

definition msg_device_not_registered :: string where
  "msg_device_not_registered = \<comment> \<open>line 165, in English: Device is not registered\<close>
     [CHR 0xD0, CHR 0xA3, CHR 0xD1, CHR 0x81, CHR 0xD1, CHR 0x82, CHR 0xD1, CHR 0x80,
     CHR 0xD0, CHR 0xBE, CHR 0xD0, CHR 0xB9, CHR 0xD1, CHR 0x81, CHR 0xD1, CHR 0x82,
     CHR 0xD0, CHR 0xB2, CHR 0xD0, CHR 0xBE] @ '' '' @ [CHR 0xD0, CHR 0xBD, CHR 0xD0,
     CHR 0xB5] @ '' '' @ [CHR 0xD0, CHR 0xB7, CHR 0xD0, CHR 0xB0, CHR 0xD1, CHR 0x80,
     CHR 0xD0, CHR 0xB5, CHR 0xD0, CHR 0xB3, CHR 0xD0, CHR 0xB8, CHR 0xD1, CHR 0x81,
     CHR 0xD1, CHR 0x82, CHR 0xD1, CHR 0x80, CHR 0xD0, CHR 0xB8, CHR 0xD1, CHR 0x80,
     CHR 0xD0, CHR 0xBE, CHR 0xD0, CHR 0xB2, CHR 0xD0, CHR 0xB0, CHR 0xD0, CHR 0xBD,
     CHR 0xD0, CHR 0xBE]"

definition txt_new_sms :: string where
  "txt_new_sms = \<comment> \<open>line 174: the phone emoji, New SMS in bold, two newlines\<close>
     [CHR 0xF0, CHR 0x9F, CHR 0x93, CHR 0xB1] @ '' <b>'' @ [CHR 0xD0, CHR 0x9D, CHR 0xD0,
     CHR 0xBE, CHR 0xD0, CHR 0xB2, CHR 0xD0, CHR 0xBE, CHR 0xD0, CHR 0xB5] @
     '' SMS</b>'' @ [CHR 0x0A, CHR 0x0A]"

definition txt_from :: string where
  "txt_from = \<comment> \<open>line 175, in English: From, colon, space, opening bold tag\<close>
     [CHR 0xD0, CHR 0x9E, CHR 0xD1, CHR 0x82] @ '': <b>''"

definition txt_from_end :: string where
  "txt_from_end = \<comment> \<open>line 175: closing bold tag and a newline\<close>
     ''</b>'' @ [CHR 0x0A]"

definition txt_time :: string where
  "txt_time = \<comment> \<open>line 176, in English: Time, colon, space\<close>
     [CHR 0xD0, CHR 0x92, CHR 0xD1, CHR 0x80, CHR 0xD0, CHR 0xB5, CHR 0xD0, CHR 0xBC,
     CHR 0xD1, CHR 0x8F] @ '': ''"

definition txt_time_end :: string where
  "txt_time_end = \<comment> \<open>line 176: two newlines\<close>
     [CHR 0x0A, CHR 0x0A]"

definition txt_message :: string where
  "txt_message = \<comment> \<open>line 177, in English: Message, colon, newline\<close>
     [CHR 0xD0, CHR 0xA1, CHR 0xD0, CHR 0xBE, CHR 0xD0, CHR 0xBE, CHR 0xD0, CHR 0xB1,
     CHR 0xD1, CHR 0x89, CHR 0xD0, CHR 0xB5, CHR 0xD0, CHR 0xBD, CHR 0xD0, CHR 0xB8,
     CHR 0xD0, CHR 0xB5] @ '':'' @ [CHR 0x0A]"

definition msg_sms_processed :: string where
  "msg_sms_processed = \<comment> \<open>line 186, in English: SMS processed and forwarded to Telegram\<close>
     ''SMS '' @ [CHR 0xD1, CHR 0x83, CHR 0xD1, CHR 0x81, CHR 0xD0, CHR 0xBF, CHR 0xD0,
     CHR 0xB5, CHR 0xD1, CHR 0x88, CHR 0xD0, CHR 0xBD, CHR 0xD0, CHR 0xBE] @ '' '' @
     [CHR 0xD0, CHR 0xBE, CHR 0xD0, CHR 0xB1, CHR 0xD1, CHR 0x80, CHR 0xD0, CHR 0xB0,
     CHR 0xD0, CHR 0xB1, CHR 0xD0, CHR 0xBE, CHR 0xD1, CHR 0x82, CHR 0xD0, CHR 0xB0,
     CHR 0xD0, CHR 0xBD, CHR 0xD0, CHR 0xBE] @ '' '' @ [CHR 0xD0, CHR 0xB8] @ '' '' @
     [CHR 0xD0, CHR 0xBF, CHR 0xD0, CHR 0xB5, CHR 0xD1, CHR 0x80, CHR 0xD0, CHR 0xB5,
     CHR 0xD1, CHR 0x81, CHR 0xD0, CHR 0xBB, CHR 0xD0, CHR 0xB0, CHR 0xD0, CHR 0xBD,
     CHR 0xD0, CHR 0xBE] @ '' '' @ [CHR 0xD0, CHR 0xB2] @ '' Telegram''"

definition msg_server_active :: string where
  "msg_server_active = \<comment> \<open>line 199, in English: Server is active\<close>
     [CHR 0xD0, CHR 0xA1, CHR 0xD0, CHR 0xB5, CHR 0xD1, CHR 0x80, CHR 0xD0, CHR 0xB2,
     CHR 0xD0, CHR 0xB5, CHR 0xD1, CHR 0x80] @ '' '' @ [CHR 0xD0, CHR 0xB0, CHR 0xD0,
     CHR 0xBA, CHR 0xD1, CHR 0x82, CHR 0xD0, CHR 0xB8, CHR 0xD0, CHR 0xB2, CHR 0xD0,
     CHR 0xB5, CHR 0xD0, CHR 0xBD]"

definition msg_api_works :: string where
  "msg_api_works = \<comment> \<open>line 206, in English: SMS to Telegram API is running\<close>
     ''SMS to Telegram API '' @ [CHR 0xD1, CHR 0x80, CHR 0xD0, CHR 0xB0, CHR 0xD0,
     CHR 0xB1, CHR 0xD0, CHR 0xBE, CHR 0xD1, CHR 0x82, CHR 0xD0, CHR 0xB0, CHR 0xD0,
     CHR 0xB5, CHR 0xD1, CHR 0x82]"

definition msg_route_not_found :: string where
  "msg_route_not_found = \<comment> \<open>line 215, in English: Route not found\<close>
     [CHR 0xD0, CHR 0x9C, CHR 0xD0, CHR 0xB0, CHR 0xD1, CHR 0x80, CHR 0xD1, CHR 0x88,
     CHR 0xD1, CHR 0x80, CHR 0xD1, CHR 0x83, CHR 0xD1, CHR 0x82] @ '' '' @ [CHR 0xD0,
     CHR 0xBD, CHR 0xD0, CHR 0xB5] @ '' '' @ [CHR 0xD0, CHR 0xBD, CHR 0xD0, CHR 0xB0,
     CHR 0xD0, CHR 0xB9, CHR 0xD0, CHR 0xB4, CHR 0xD0, CHR 0xB5, CHR 0xD0, CHR 0xBD]"

definition error_json :: "string \<Rightarrow> (string \<times> jsval) list" where
  "error_json m = [(''status'', JStr ''error''), (''message'', JStr m)]"

definition success_json :: "string \<Rightarrow> (string \<times> jsval) list" where
  "success_json m = [(''status'', JStr ''success''), (''message'', JStr m)]"

subsection \<open>The access gate (lines 37 to 49)\<close>

text \<open>\<open>Some r\<close>: the gate answered \<open>r\<close> and the chain stops; \<open>None\<close>: \<^verbatim>\<open>next()\<close>.\<close>

definition checkApiKey :: "env \<Rightarrow> request \<Rightarrow> response option" where
  "checkApiKey e req =
     (let apiKey = header (x_api_key req) in
      if \<not> truthy apiKey \<or> \<not> strict_eq apiKey (header (API_KEY e))
      then Some \<lparr>status = 401, json = error_json msg_invalid_api_key\<rparr>
      else None)"

subsection \<open>The relay function (lines 55 to 71)\<close>

definition ToString :: "env \<Rightarrow> jsval \<Rightarrow> error + string" where
  "ToString e v = (case v of JStr s \<Rightarrow> Inr s | _ \<Rightarrow> toPrimitiveString e v)"

text \<open>
  The \<^verbatim>\<open>try\<close> block builds the URL, then posts; whatever is thrown is thrown again
  with the prefix of line 69. The second component is the history of POSTs.
\<close>

definition sendToTelegram ::
  "env \<Rightarrow> jsval \<Rightarrow> jsval \<Rightarrow> jsval \<Rightarrow> relay_call list \<Rightarrow> (error + bool) \<times> relay_call list" where
  "sendToTelegram e token chat message out =
     (case ToString e token of
        Inl err \<Rightarrow> (Inl (Error (msg_telegram_error_prefix @ error_message err)), out)
      | Inr t \<Rightarrow>
          (let call = \<lparr>url = ''https://api.telegram.org/bot'' @ t @ ''/sendMessage'',
                        chat_id = chat, text_field = message, parse_mode = ''HTML''\<rparr>
           in case axios_post e call of
                Some m \<Rightarrow> (Inl (Error (msg_telegram_error_prefix @ m)), out @ [call])
              | None \<Rightarrow> (Inr True, out @ [call])))"

subsection \<open>The route handlers\<close>

text \<open>\<^verbatim>\<open>POST /api/sendToTelegram\<close> (lines 76 to 100), after the gate.\<close>

definition handle_sendToTelegram :: "env \<Rightarrow> request \<Rightarrow> state \<Rightarrow> response \<times> state" where
  "handle_sendToTelegram e req st =
     (let token = field req ''botToken''; chat = field req ''chatId'';
          message = field req ''message'' in
      if \<not> truthy token \<or> \<not> truthy chat \<or> \<not> truthy message
      then (\<lparr>status = 400, json = error_json msg_missing_send\<rparr>, st)
      else case sendToTelegram e token chat message (outbound st) of
             (Inl err, out) \<Rightarrow>
               (\<lparr>status = 500, json = error_json (error_message err)\<rparr>, st\<lparr>outbound := out\<rparr>)
           | (Inr _, out) \<Rightarrow>
               (\<lparr>status = 200, json = success_json msg_sent\<rparr>, st\<lparr>outbound := out\<rparr>))"

text \<open>\<^verbatim>\<open>Array.prototype.findIndex\<close>: the first index that satisfies, \<open>None\<close> for \<open>-1\<close>.\<close>

fun findIndex :: "('a \<Rightarrow> bool) \<Rightarrow> 'a list \<Rightarrow> nat option" where
  "findIndex P [] = None"
| "findIndex P (x # xs) =
     (if P x then Some 0 else map_option Suc (findIndex P xs))"

text \<open>
  \<^verbatim>\<open>POST /api/registerDevice\<close> (lines 103 to 145), after the gate. The entry is
  overwritten or pushed first; the log line that follows (120, 131) puts \<^verbatim>\<open>deviceId\<close>
  in a template literal inside the \<^verbatim>\<open>try\<close>, so a conversion that throws is answered
  500 by the \<^verbatim>\<open>catch\<close>, after the registry has changed. The \<^verbatim>\<open>deviceId\<close> of the
  reply is what \<^verbatim>\<open>res.json\<close> writes.
\<close>

definition handle_registerDevice :: "env \<Rightarrow> request \<Rightarrow> state \<Rightarrow> response \<times> state" where
  "handle_registerDevice e req st =
     (let did = field req ''deviceId''; token = field req ''botToken'';
          chat = field req ''chatId'' in
      if \<not> truthy did \<or> \<not> truthy token \<or> \<not> truthy chat
      then (\<lparr>status = 400, json = error_json msg_missing_register\<rparr>, st)
      else
        (let entry = \<lparr>deviceId = did, botToken = token, chatId = chat\<rparr> in
         case findIndex (\<lambda>d. strict_eq (deviceId d) did) (devices st) of
           Some i \<Rightarrow>
             (let st' = st\<lparr>devices := (devices st)[i := entry]\<rparr> in
              case ToString e did of
                Inl err \<Rightarrow>
                  (\<lparr>status = 500, json = error_json (error_message err)\<rparr>, st')
              | Inr _ \<Rightarrow>
                  (\<lparr>status = 200,
                    json = success_json msg_device_updated @ json_property ''deviceId'' did\<rparr>,
                   st'))
         | None \<Rightarrow>
             (let st' = st\<lparr>devices := devices st @ [entry]\<rparr> in
              case ToString e did of
                Inl err \<Rightarrow>
                  (\<lparr>status = 500, json = error_json (error_message err)\<rparr>, st')
              | Inr _ \<Rightarrow>
                  (\<lparr>status = 200,
                    json = success_json msg_device_registered @ json_property ''deviceId'' did\<rparr>,
                   st'))))"

text \<open>
  Lines 170 to 172: the time shown, from \<^verbatim>\<open>timestamp\<close> when it is truthy, from the
  clock otherwise.
\<close>

definition formattedTime :: "env \<Rightarrow> jsval \<Rightarrow> error + string" where
  "formattedTime e timestamp =
     (if truthy timestamp
      then (case ToString e timestamp of
              Inl err \<Rightarrow> Inl err
            | Inr s \<Rightarrow> Inr (toLocaleString e (parseInt e s)))
      else Inr (toLocaleString e (now e)))"

text \<open>Lines 174 to 177: the template literal of the notification.\<close>

definition telegramMessage :: "env \<Rightarrow> jsval \<Rightarrow> string \<Rightarrow> jsval \<Rightarrow> error + string" where
  "telegramMessage e sender time message =
     (case ToString e sender of
        Inl err \<Rightarrow> Inl err
      | Inr s \<Rightarrow>
          (case ToString e message of
             Inl err \<Rightarrow> Inl err
           | Inr m \<Rightarrow>
               Inr (txt_new_sms @ txt_from @ s @ txt_from_end @
                    txt_time @ time @ txt_time_end @ txt_message @ m)))"

text \<open>
  \<^verbatim>\<open>POST /api/processSms\<close> (lines 148 to 195), after the gate. The log line 182 converts
  \<^verbatim>\<open>sender\<close>, which line 175 has converted already, and \<^verbatim>\<open>deviceId\<close>, which \<^verbatim>\<open>===\<close> a
  stored identifier and so is no array or object: neither conversion can throw there.
\<close>

definition handle_processSms :: "env \<Rightarrow> request \<Rightarrow> state \<Rightarrow> response \<times> state" where
  "handle_processSms e req st =
     (let did = field req ''deviceId''; sender = field req ''sender'';
          message = field req ''message''; timestamp = field req ''timestamp'' in
      if \<not> truthy did \<or> \<not> truthy sender \<or> \<not> truthy message
      then (\<lparr>status = 400, json = error_json msg_missing_sms\<rparr>, st)
      else case find (\<lambda>d. strict_eq (deviceId d) did) (devices st) of
             None \<Rightarrow> (\<lparr>status = 404, json = error_json msg_device_not_registered\<rparr>, st)
           | Some dev \<Rightarrow>
               (case formattedTime e timestamp of
                  Inl err \<Rightarrow> (\<lparr>status = 500, json = error_json (error_message err)\<rparr>, st)
                | Inr time \<Rightarrow>
                    (case telegramMessage e sender time message of
                       Inl err \<Rightarrow>
                         (\<lparr>status = 500, json = error_json (error_message err)\<rparr>, st)
                     | Inr txt \<Rightarrow>
                         (case sendToTelegram e (botToken dev) (chatId dev) (JStr txt)
                                 (outbound st) of
                            (Inl err, out) \<Rightarrow>
                              (\<lparr>status = 500, json = error_json (error_message err)\<rparr>,
                               st\<lparr>outbound := out\<rparr>)
                          | (Inr _, out) \<Rightarrow>
                              (\<lparr>status = 200, json = success_json msg_sms_processed\<rparr>,
                               st\<lparr>outbound := out\<rparr>)))))"

subsection \<open>The routing table\<close>

text \<open>A route registered with \<^verbatim>\<open>checkApiKey\<close> in front of its handler.\<close>

definition protected ::
  "(env \<Rightarrow> request \<Rightarrow> state \<Rightarrow> response \<times> state) \<Rightarrow> env \<Rightarrow> request \<Rightarrow> state \<Rightarrow> response \<times> state" where
  "protected handler e req st =
     (case checkApiKey e req of Some r \<Rightarrow> (r, st) | None \<Rightarrow> handler e req st)"

definition app :: "env \<Rightarrow> request \<Rightarrow> state \<Rightarrow> response \<times> state" where
  "app e req st =
     (case route req of
        SendToTelegram \<Rightarrow> protected handle_sendToTelegram e req st
      | RegisterDevice \<Rightarrow> protected handle_registerDevice e req st
      | ProcessSms \<Rightarrow> protected handle_processSms e req st
      | Ping \<Rightarrow> (\<lparr>status = 200, json = success_json msg_server_active\<rparr>, st)
      | Root \<Rightarrow>
          (\<lparr>status = 200, json = success_json msg_api_works @ [(''version'', JStr ''1.0.0'')]\<rparr>,
           st)
      | Unmatched \<Rightarrow> (\<lparr>status = 404, json = error_json msg_route_not_found\<rparr>, st))"

text \<open>The server's life: the requests in the order they are handled, each with its \<open>env\<close>.\<close>

fun run :: "(env \<times> request) list \<Rightarrow> state \<Rightarrow> state" where
  "run [] st = st"
| "run ((e, req) # rs) st = run rs (snd (app e req st))"

subsection \<open>The middlewares in front of the routing table\<close>

text \<open>
  An HTTP request as it arrives: method, pathname, source address, arrival time in
  milliseconds, the \<^verbatim>\<open>X-Api-Key\<close> header and the body. Lines 19 to 21 mount \<^verbatim>\<open>cors\<close> and
  the two body parsers first; \<open>early_reply\<close> is \<open>Some c\<close> when one of these packages
  answers the request itself with status \<open>c\<close> (a preflight, a body that cannot be
  parsed) and \<open>None\<close> when they pass it on with the body parsed into \<open>json_body\<close>.
\<close>

datatype http_method = GET | HEAD | POST | Other string

record http_request =
  verb :: http_method
  pathname :: string
  ip :: string
  time :: int
  early_reply :: "nat option"
  key_header :: "string option"
  json_body :: "string \<rightharpoonup> jsval"

text \<open>
  Express matches a path without regard to the case of ASCII letters and accepts one
  trailing slash; a prefix mounted with \<^verbatim>\<open>app.use\<close> matches up to a slash or the end.
\<close>

definition lower :: "char \<Rightarrow> char" where
  "lower c =
     (case map_of (zip ''ABCDEFGHIJKLMNOPQRSTUVWXYZ'' ''abcdefghijklmnopqrstuvwxyz'') c of
        Some l \<Rightarrow> l
      | None \<Rightarrow> c)"

definition same_path :: "string \<Rightarrow> string \<Rightarrow> bool" where
  "same_path pattern p =
     (let q = map lower p; r = map lower pattern in q = r \<or> q = r @ ''/'')"

definition under_api :: "string \<Rightarrow> bool" where
  "under_api p = (let q = map lower p in q = ''/api'' \<or> take 5 q = ''/api/'')"

text \<open>
  The routing table of lines 76, 103, 148, 198, 203 and 212, in that order; a \<^verbatim>\<open>HEAD\<close>
  request is served by the \<^verbatim>\<open>GET\<close> routes.
\<close>

definition route_of :: "http_method \<Rightarrow> string \<Rightarrow> route" where
  "route_of m p =
     (if m = POST \<and> same_path ''/api/sendToTelegram'' p then SendToTelegram
      else if m = POST \<and> same_path ''/api/registerDevice'' p then RegisterDevice
      else if m = POST \<and> same_path ''/api/processSms'' p then ProcessSms
      else if (m = GET \<or> m = HEAD) \<and> same_path ''/ping'' p then Ping
      else if (m = GET \<or> m = HEAD) \<and> same_path ''/'' p then Root
      else Unmatched)"

definition routed :: "http_request \<Rightarrow> request" where
  "routed r =
     \<lparr>route = route_of (verb r) (pathname r), x_api_key = key_header r, body = json_body r\<rparr>"

text \<open>The options of lines 24 to 31.\<close>

definition windowMs :: int where
  "windowMs = 15 * 60 * 1000"

definition max_requests :: nat where
  "max_requests = 100"

definition limit_message :: "(string \<times> jsval) list" where
  "limit_message = [(''status'', JStr ''error''), (''message'', JStr msg_too_many_requests)]"

text \<open>
  Modelled from the spec: the limiter itself is the package \<^verbatim>\<open>express-rate-limit\<close>,
  which is not part of the repository. The spec calls it a sliding window of 15 minutes
  capped at 100 requests per source address, whose excess requests receive a fixed error
  payload. So the limiter keeps the address and arrival time of every request it sees,
  counts those of the same address that arrived within the last \<open>windowMs\<close>
  milliseconds, the current one included, and blocks when the count exceeds
  \<open>max_requests\<close>.
\<close>

definition recent :: "(string \<times> int) list \<Rightarrow> string \<Rightarrow> int \<Rightarrow> nat" where
  "recent hs a t =
     length (filter (\<lambda>h. fst h = a \<and> t - windowMs < snd h \<and> snd h \<le> t) hs)"

definition apiLimiter :: "http_request \<Rightarrow> (string \<times> int) list \<Rightarrow> bool \<times> (string \<times> int) list" where
  "apiLimiter r hs =
     (let hs' = hs @ [(ip r, time r)] in (max_requests < recent hs' (ip r) (time r), hs'))"

text \<open>
  The reply to a request: by one of the packages of lines 19 to 21, by the limiter with
  its payload, or by the routing table.
\<close>

datatype reply = Early nat | Limited "(string \<times> jsval) list" | Routed response

record server_state =
  app_state :: state
  hits :: "(string \<times> int) list"

definition initial_server :: server_state where
  "initial_server = \<lparr>app_state = initial, hits = []\<rparr>"

text \<open>
  The whole chain in the order the file mounts it: the packages of lines 19 to 21, the
  limiter on \<^verbatim>\<open>/api\<close> (line 34), then the routing table.
\<close>

definition server :: "env \<Rightarrow> http_request \<Rightarrow> server_state \<Rightarrow> reply \<times> server_state" where
  "server e r s =
     (case early_reply r of
        Some c \<Rightarrow> (Early c, s)
      | None \<Rightarrow>
          if under_api (pathname r)
          then (case apiLimiter r (hits s) of
                  (True, hs) \<Rightarrow> (Limited limit_message, s\<lparr>hits := hs\<rparr>)
                | (False, hs) \<Rightarrow>
                    (case app e (routed r) (app_state s) of
                       (res, st) \<Rightarrow> (Routed res, \<lparr>app_state = st, hits = hs\<rparr>)))
          else (case app e (routed r) (app_state s) of
                  (res, st) \<Rightarrow> (Routed res, s\<lparr>app_state := st\<rparr>)))"

subsection \<open>Registry invariants\<close>

text \<open>No two entries of the registry have identifiers that \<^verbatim>\<open>===\<close> each other.\<close>

definition unique_ids :: "device list \<Rightarrow> bool" where
  "unique_ids ds = sorted_wrt (\<lambda>a b. \<not> strict_eq (deviceId a) (deviceId b)) ds"

text \<open>Every field of every entry is truthy.\<close>

definition all_truthy :: "device list \<Rightarrow> bool" where
  "all_truthy ds =
     (\<forall>d\<in>set ds. truthy (deviceId d) \<and> truthy (botToken d) \<and> truthy (chatId d))"

subsection \<open>Example environment, requests and states\<close>

text \<open>
  An environment with the key \<open>secret\<close>, a clock at 1700000000000 ms, a string
  conversion that knows the numbers \<open>0\<close> and \<open>Infinity\<close> and throws on everything
  else (as the engine does on an object whose \<^verbatim>\<open>toString\<close> is not callable), and a
  POST that succeeds; and the same with a POST that is rejected.
\<close>

definition example_env :: env where
  "example_env =
     \<lparr>API_KEY = Some ''secret'',
      toPrimitiveString = (\<lambda>v. if v = JNum (Finite 0) then Inr ''0''
         else if v = JNum PosInfinity then Inr ''Infinity''
         else Inl (Error ''Cannot convert object to primitive value'')),
      parseInt = (\<lambda>s. if s = ''0'' then Finite 0 else NaN),
      toLocaleString = (\<lambda>t. if t = Finite 0 then ''01.01.1970, 00:00:00''
         else if t = Finite 1700000000000 then ''14.11.2023, 22:13:20''
         else ''Invalid Date''),
      now = Finite 1700000000000,
      axios_post = (\<lambda>c. None)\<rparr>"

definition failing_env :: env where
  "failing_env =
     example_env\<lparr>axios_post := (\<lambda>c. Some ''Request failed with status code 401'')\<rparr>"

definition register_request :: "string \<Rightarrow> string \<Rightarrow> string \<Rightarrow> string \<Rightarrow> request" where
  "register_request key d t c =
     \<lparr>route = RegisterDevice, x_api_key = Some key,
      body = [''deviceId'' \<mapsto> JStr d, ''botToken'' \<mapsto> JStr t, ''chatId'' \<mapsto> JStr c]\<rparr>"

definition sms_request :: "string \<Rightarrow> string \<Rightarrow> string \<Rightarrow> request" where
  "sms_request d s m =
     \<lparr>route = ProcessSms, x_api_key = Some ''secret'',
      body = [''deviceId'' \<mapsto> JStr d, ''sender'' \<mapsto> JStr s, ''message'' \<mapsto> JStr m]\<rparr>"

definition send_request :: "string \<Rightarrow> string \<Rightarrow> string \<Rightarrow> request" where
  "send_request t c m =
     \<lparr>route = SendToTelegram, x_api_key = Some ''secret'',
      body = [''botToken'' \<mapsto> JStr t, ''chatId'' \<mapsto> JStr c, ''message'' \<mapsto> JStr m]\<rparr>"

text \<open>A body without \<open>message\<close> and with an empty \<open>chatId\<close>.\<close>

definition incomplete_request :: "route \<Rightarrow> request" where
  "incomplete_request r =
     \<lparr>route = r, x_api_key = Some ''secret'',
      body = [''deviceId'' \<mapsto> JStr ''dev1'', ''botToken'' \<mapsto> JStr ''T'',
              ''sender'' \<mapsto> JStr ''+1555'', ''chatId'' \<mapsto> JStr []]\<rparr>"

text \<open>The registry after \<open>dev1\<close> was registered with token \<open>T\<close> and chat \<open>123\<close>.\<close>

definition registered_state :: state where
  "registered_state =
     \<lparr>devices = [\<lparr>deviceId = JStr ''dev1'', botToken = JStr ''T'', chatId = JStr ''123''\<rparr>],
      outbound = []\<rparr>"

text \<open>An SMS request that carries a \<open>timestamp\<close> field.\<close>

definition sms_request_at :: "string \<Rightarrow> string \<Rightarrow> string \<Rightarrow> jsval \<Rightarrow> request" where
  "sms_request_at d s m ts =
     \<lparr>route = ProcessSms, x_api_key = Some ''secret'',
      body = [''deviceId'' \<mapsto> JStr d, ''sender'' \<mapsto> JStr s, ''message'' \<mapsto> JStr m,
              ''timestamp'' \<mapsto> ts]\<rparr>"


text \<open>An HTTP request from the address \<open>10.0.0.7\<close> that the packages pass on.\<close>

definition http_request_at :: "http_method \<Rightarrow> string \<Rightarrow> int \<Rightarrow> string option \<Rightarrow> http_request" where
  "http_request_at m p t k =
     \<lparr>verb = m, pathname = p, ip = ''10.0.0.7'', time = t, early_reply = None,
      key_header = k,
      json_body = [''deviceId'' \<mapsto> JStr ''dev1'', ''botToken'' \<mapsto> JStr ''T'',
                   ''chatId'' \<mapsto> JStr ''123'']\<rparr>"

text \<open>The server after a hundred requests from that address at time 0.\<close>

definition busy_hits :: "(string \<times> int) list" where
  "busy_hits = replicate 100 (''10.0.0.7'', 0)"


section \<open>Auxiliary lemmas\<close>

lemma strict_eq_sym: "strict_eq a b \<Longrightarrow> strict_eq b a"
  by (induction a b rule: strict_eq.induct) auto

lemma strict_eq_trans: "strict_eq a b \<Longrightarrow> strict_eq b c \<Longrightarrow> strict_eq a c"
  by (cases a; cases b; cases c) auto

lemma strict_eq_JStr_iff: "strict_eq v (JStr s) \<longleftrightarrow> v = JStr s"
  by (cases v) auto

lemma findIndex_None_iff: "findIndex P xs = None \<longleftrightarrow> (\<forall>x\<in>set xs. \<not> P x)"
  by (induction xs) auto

lemma findIndex_Some:
  "findIndex P xs = Some i \<Longrightarrow> i < length xs \<and> P (xs ! i) \<and> (\<forall>j<i. \<not> P (xs ! j))"
proof (induction xs arbitrary: i)
  case Nil
  then show ?case by simp
next
  case (Cons x xs)
  show ?case
  proof (cases "P x")
    case True
    with Cons.prems show ?thesis by simp
  next
    case False
    with Cons.prems obtain k where k: "findIndex P xs = Some k" "i = Suc k"
      by auto
    from Cons.IH [OF k(1)] False k(2) show ?thesis
      by (auto simp: nth_Cons split: nat.splits)
  qed
qed

lemma unique_ids_nth:
  "unique_ids ds \<longleftrightarrow>
     (\<forall>i j. i < length ds \<longrightarrow> j < length ds \<longrightarrow> i \<noteq> j \<longrightarrow>
        \<not> strict_eq (deviceId (ds ! i)) (deviceId (ds ! j)))"
proof
  assume u: "unique_ids ds"
  show "\<forall>i j. i < length ds \<longrightarrow> j < length ds \<longrightarrow> i \<noteq> j \<longrightarrow>
        \<not> strict_eq (deviceId (ds ! i)) (deviceId (ds ! j))"
  proof (intro allI impI)
    fix i j assume ij: "i < length ds" "j < length ds" "i \<noteq> j"
    show "\<not> strict_eq (deviceId (ds ! i)) (deviceId (ds ! j))"
    proof (cases "i < j")
      case True
      with u ij show ?thesis by (simp add: unique_ids_def sorted_wrt_iff_nth_less)
    next
      case False
      with ij have "j < i" by simp
      with u ij have "\<not> strict_eq (deviceId (ds ! j)) (deviceId (ds ! i))"
        by (simp add: unique_ids_def sorted_wrt_iff_nth_less)
      then show ?thesis using strict_eq_sym by blast
    qed
  qed
next
  assume "\<forall>i j. i < length ds \<longrightarrow> j < length ds \<longrightarrow> i \<noteq> j \<longrightarrow>
        \<not> strict_eq (deviceId (ds ! i)) (deviceId (ds ! j))"
  then show "unique_ids ds"
    by (simp add: unique_ids_def sorted_wrt_iff_nth_less)
qed

lemma unique_ids_update:
  assumes u: "unique_ids ds" and i: "i < length ds"
    and m: "strict_eq (deviceId (ds ! i)) (deviceId entry)"
  shows "unique_ids (ds[i := entry])"
proof -
  have other: "\<not> strict_eq (deviceId (ds ! j)) (deviceId entry)"
    if "j < length ds" "j \<noteq> i" for j
  proof
    assume "strict_eq (deviceId (ds ! j)) (deviceId entry)"
    with m have "strict_eq (deviceId (ds ! j)) (deviceId (ds ! i))"
      using strict_eq_sym strict_eq_trans by blast
    with u that i show False by (simp add: unique_ids_nth)
  qed
  show ?thesis
    unfolding unique_ids_nth
  proof (intro allI impI)
    fix a b
    assume ab: "a < length (ds[i := entry])" "b < length (ds[i := entry])" "a \<noteq> b"
    show "\<not> strict_eq (deviceId (ds[i := entry] ! a)) (deviceId (ds[i := entry] ! b))"
    proof (cases "a = i")
      case True
      with ab other [of b] show ?thesis using strict_eq_sym by auto
    next
      case False
      show ?thesis
      proof (cases "b = i")
        case True
        with ab False other [of a] show ?thesis by auto
      next
        case bi: False
        with False ab u show ?thesis by (simp add: unique_ids_nth)
      qed
    qed
  qed
qed

lemma unique_ids_snoc:
  assumes u: "unique_ids ds"
    and n: "\<forall>x\<in>set ds. \<not> strict_eq (deviceId x) (deviceId entry)"
  shows "unique_ids (ds @ [entry])"
  using assms by (auto simp: unique_ids_def sorted_wrt_append)

lemma unique_ids_filter:
  "unique_ids ds \<Longrightarrow> length (filter (\<lambda>d. strict_eq (deviceId d) v) ds) \<le> 1"
proof (induction ds)
  case Nil
  then show ?case by simp
next
  case (Cons d ds)
  then have tl: "unique_ids ds" and hd: "\<forall>x\<in>set ds. \<not> strict_eq (deviceId d) (deviceId x)"
    by (simp_all add: unique_ids_def)
  show ?case
  proof (cases "strict_eq (deviceId d) v")
    case True
    have "\<not> strict_eq (deviceId x) v" if "x \<in> set ds" for x
      using hd that True strict_eq_sym strict_eq_trans by blast
    then have "filter (\<lambda>d. strict_eq (deviceId d) v) ds = []"
      by (simp add: filter_empty_conv)
    with True show ?thesis by simp
  next
    case False
    with Cons.IH [OF tl] show ?thesis by simp
  qed
qed

lemma filter_singleton:
  assumes "x \<in> set xs" "P x" "length (filter P xs) \<le> 1"
  shows "filter P xs = [x]"
proof -
  from assms(1,2) have mem: "x \<in> set (filter P xs)" by simp
  then obtain y ys where eq: "filter P xs = y # ys" by (cases "filter P xs") auto
  with assms(3) have "ys = []" by simp
  with eq mem show ?thesis by simp
qed

lemma run_append: "run (xs @ ys) st = run ys (run xs st)"
  by (induction xs arbitrary: st) auto


lemma field_absent: "body req k = None \<Longrightarrow> \<not> truthy (field req k)"
  by (simp add: field_def)

lemma handle_sendToTelegram_devices:
  "devices (snd (handle_sendToTelegram e req st)) = devices st"
  by (auto simp: handle_sendToTelegram_def Let_def split: prod.splits sum.splits)

lemma handle_processSms_devices:
  "devices (snd (handle_processSms e req st)) = devices st"
  by (auto simp: handle_processSms_def Let_def split: prod.splits sum.splits option.splits)


lemma handle_registerDevice_invalid:
  "\<not> truthy (field req ''deviceId'') \<or> \<not> truthy (field req ''botToken'') \<or>
   \<not> truthy (field req ''chatId'') \<Longrightarrow>
   handle_registerDevice e req st =
     (\<lparr>status = 400, json = error_json msg_missing_register\<rparr>, st)"
  by (auto simp: handle_registerDevice_def Let_def)

lemma handle_registerDevice_update:
  assumes "truthy (field req ''deviceId'')" "truthy (field req ''botToken'')"
    "truthy (field req ''chatId'')"
    "findIndex (\<lambda>d. strict_eq (deviceId d) (field req ''deviceId'')) (devices st) = Some i"
  shows "snd (handle_registerDevice e req st) =
      st\<lparr>devices := (devices st)
         [i := \<lparr>deviceId = field req ''deviceId'', botToken = field req ''botToken'',
                 chatId = field req ''chatId''\<rparr>]\<rparr>"
  using assms by (simp add: handle_registerDevice_def Let_def split: sum.splits)

lemma handle_registerDevice_append:
  assumes "truthy (field req ''deviceId'')" "truthy (field req ''botToken'')"
    "truthy (field req ''chatId'')"
    "findIndex (\<lambda>d. strict_eq (deviceId d) (field req ''deviceId'')) (devices st) = None"
  shows "snd (handle_registerDevice e req st) =
      st\<lparr>devices := devices st @
         [\<lparr>deviceId = field req ''deviceId'', botToken = field req ''botToken'',
            chatId = field req ''chatId''\<rparr>]\<rparr>"
  using assms by (simp add: handle_registerDevice_def Let_def split: sum.splits)

lemma handle_registerDevice_unique:
  assumes "unique_ids (devices st)"
  shows "unique_ids (devices (snd (handle_registerDevice e req st)))"
proof (cases "truthy (field req ''deviceId'') \<and> truthy (field req ''botToken'') \<and>
    truthy (field req ''chatId'')")
  case False
  then show ?thesis using assms handle_registerDevice_invalid [of req e st] by auto
next
  case True
  show ?thesis
  proof (cases "findIndex (\<lambda>d. strict_eq (deviceId d) (field req ''deviceId'')) (devices st)")
    case None
    then have "\<forall>x\<in>set (devices st). \<not> strict_eq (deviceId x) (field req ''deviceId'')"
      by (simp add: findIndex_None_iff)
    with assms True None show ?thesis
      by (simp add: handle_registerDevice_append unique_ids_snoc)
  next
    case (Some i)
    from findIndex_Some [OF Some] assms True Some show ?thesis
      by (simp add: handle_registerDevice_update unique_ids_update)
  qed
qed

lemma handle_registerDevice_truthy:
  assumes "all_truthy (devices st)"
  shows "all_truthy (devices (snd (handle_registerDevice e req st)))"
proof (cases "truthy (field req ''deviceId'') \<and> truthy (field req ''botToken'') \<and>
    truthy (field req ''chatId'')")
  case False
  then show ?thesis using assms handle_registerDevice_invalid [of req e st] by auto
next
  case True
  show ?thesis
  proof (cases "findIndex (\<lambda>d. strict_eq (deviceId d) (field req ''deviceId'')) (devices st)")
    case None
    with assms True show ?thesis
      by (simp add: handle_registerDevice_append all_truthy_def)
  next
    case (Some i)
    have "d \<in> insert x (set xs)" if "d \<in> set (xs[i := x])" for d x and xs :: "device list"
      using that set_update_subset_insert [of xs i x] by blast
    with assms True Some show ?thesis
      by (fastforce simp: handle_registerDevice_update all_truthy_def)
  qed
qed

lemma app_unique:
  "unique_ids (devices st) \<Longrightarrow> unique_ids (devices (snd (app e req st)))"
  by (cases "route req")
    (auto simp: app_def protected_def handle_sendToTelegram_devices
      handle_processSms_devices handle_registerDevice_unique split: option.splits)

lemma app_truthy:
  "all_truthy (devices st) \<Longrightarrow> all_truthy (devices (snd (app e req st)))"
  by (cases "route req")
    (auto simp: app_def protected_def handle_sendToTelegram_devices
      handle_processSms_devices handle_registerDevice_truthy split: option.splits)

lemma run_unique: "unique_ids (devices st) \<Longrightarrow> unique_ids (devices (run rs st))"
  by (induction rs arbitrary: st) (auto simp: app_unique)

lemma run_truthy: "all_truthy (devices st) \<Longrightarrow> all_truthy (devices (run rs st))"
  by (induction rs arbitrary: st) (auto simp: app_truthy)

lemma reachable_unique: "unique_ids (devices (run rs initial))"
  by (rule run_unique) (simp add: initial_def unique_ids_def)

lemma reachable_truthy: "all_truthy (devices (run rs initial))"
  by (rule run_truthy) (simp add: initial_def all_truthy_def)

lemma protected_pass: "checkApiKey e req = None \<Longrightarrow> protected h e req st = h e req st"
  by (simp add: protected_def)

lemma findIndex_Some_iff_ex: "(\<exists>i. findIndex P xs = Some i) \<longleftrightarrow> (\<exists>x\<in>set xs. P x)"
  using findIndex_None_iff [of P xs] by (cases "findIndex P xs") auto


lemma reachable_filter_JStr:
  "length (filter (\<lambda>d. deviceId d = JStr t) (devices (run rs initial))) \<le> 1"
  using unique_ids_filter [OF reachable_unique, of "JStr t" rs]
  by (simp add: strict_eq_JStr_iff)

lemma handle_processSms_outbound:
  "outbound (snd (handle_processSms e req st)) = outbound st \<or>
   (\<exists>d\<in>set (devices st). \<exists>t txt.
      ToString e (botToken d) = Inr t \<and>
      outbound (snd (handle_processSms e req st)) =
        outbound st @
          [\<lparr>url = ''https://api.telegram.org/bot'' @ t @ ''/sendMessage'',
            chat_id = chatId d, text_field = JStr txt, parse_mode = ''HTML''\<rparr>])"
proof (cases "find (\<lambda>d. strict_eq (deviceId d) (field req ''deviceId'')) (devices st)")
  case None
  then show ?thesis by (simp add: handle_processSms_def Let_def)
next
  case (Some dev)
  then have "dev \<in> set (devices st)"
    by (auto simp: find_Some_iff)
  with Some show ?thesis
    by (auto simp: handle_processSms_def sendToTelegram_def Let_def
        split: sum.splits option.splits)
qed


lemma gate_rejects:
  assumes "x_api_key req = None \<or> x_api_key req \<noteq> API_KEY e"
  shows "checkApiKey e req =
     Some \<lparr>status = 401,
           json = [(''status'', JStr ''error''), (''message'', JStr msg_invalid_api_key)]\<rparr>"
  using assms
  by (cases "x_api_key req"; cases "API_KEY e")
    (auto simp: checkApiKey_def header_def error_json_def)

lemma recent_snoc:
  "recent (hs @ [(a, t)]) a t = Suc (recent hs a t)"
  by (simp add: recent_def windowMs_def)

lemma example_route_of:
  "route_of POST ''/api/registerDevice'' = RegisterDevice"
  "route_of POST ''/API/processSms/'' = ProcessSms"
  "route_of POST ''/api/unknown'' = Unmatched"
  "route_of GET ''/api/registerDevice'' = Unmatched"
  by (simp_all add: route_of_def same_path_def lower_def Let_def)

lemma example_under_api:
  "under_api ''/api/registerDevice''"
  "under_api ''/API/processSms/''"
  "under_api ''/api/unknown''"
  by (simp_all add: under_api_def lower_def Let_def)

lemma example_same_path:
  "same_path ''/api/registerDevice'' ''/api/registerDevice''"
  "same_path ''/api/processSms'' ''/API/processSms/''"
  by (simp_all add: same_path_def lower_def Let_def)

lemma example_recent:
  "recent [(''10.0.0.7'', 1000)] ''10.0.0.7'' 1000 = 1"
  "recent (busy_hits @ [(''10.0.0.7'', 1000)]) ''10.0.0.7'' 1000 = 101"
  "recent (busy_hits @ [(''10.0.0.7'', 900000)]) ''10.0.0.7'' 900000 = 1"
  by (simp_all add: recent_def windowMs_def busy_hits_def)

section \<open>The claims of the specification\<close>

text \<open>
  \<^bold>\<open>C1\<close> (one record per device identifier). After any sequence \<open>rs\<close> of requests
  to the server started with an empty registry: at most one entry matches any identifier
  under the comparison \<^verbatim>\<open>===\<close> of line 115, and at most one entry holds any given string
  identifier. A valid \<^verbatim>\<open>registerDevice\<close> for the string identifier \<open>s\<close> then overwrites
  the entry at the position where \<open>s\<close> is stored, if there is one (the list keeps its
  length), and appends only when no entry holds \<open>s\<close>. Either way exactly one entry holds
  \<open>s\<close> afterwards, with the credentials of this latest call; in particular when \<open>rs\<close>
  already registered \<open>s\<close> with other credentials.
\<close>

theorem registry_one_record_per_device:
  "(\<forall>v. length (filter (\<lambda>d. strict_eq (deviceId d) v) (devices (run rs initial))) \<le> 1) \<and>
   (\<forall>t. length (filter (\<lambda>d. deviceId d = JStr t) (devices (run rs initial))) \<le> 1) \<and>
   (route req = RegisterDevice \<and> checkApiKey e req = None \<and>
    field req ''deviceId'' = JStr s \<and> s \<noteq> [] \<and>
    truthy (field req ''botToken'') \<and> truthy (field req ''chatId'') \<longrightarrow>
      (\<forall>i<length (devices (run rs initial)).
         deviceId (devices (run rs initial) ! i) = JStr s \<longrightarrow>
         devices (run (rs @ [(e, req)]) initial) =
           (devices (run rs initial))
             [i := \<lparr>deviceId = JStr s, botToken = field req ''botToken'',
                     chatId = field req ''chatId''\<rparr>]) \<and>
      ((\<forall>d\<in>set (devices (run rs initial)). deviceId d \<noteq> JStr s) \<longrightarrow>
         devices (run (rs @ [(e, req)]) initial) =
           devices (run rs initial) @
             [\<lparr>deviceId = JStr s, botToken = field req ''botToken'',
                chatId = field req ''chatId''\<rparr>]) \<and>
      filter (\<lambda>d. deviceId d = JStr s) (devices (run (rs @ [(e, req)]) initial)) =
        [\<lparr>deviceId = JStr s, botToken = field req ''botToken'',
           chatId = field req ''chatId''\<rparr>])"
proof -
  define ds where "ds = devices (run rs initial)"
  define entry where
    "entry = \<lparr>deviceId = JStr s, botToken = field req ''botToken'', chatId = field req ''chatId''\<rparr>"
  define ds' where "ds' = devices (run (rs @ [(e, req)]) initial)"
  have u: "unique_ids ds" unfolding ds_def by (rule reachable_unique)
  have first: "\<forall>v. length (filter (\<lambda>d. strict_eq (deviceId d) v) ds) \<le> 1"
    using unique_ids_filter [OF u] by blast
  have second: "\<forall>t. length (filter (\<lambda>d. deviceId d = JStr t) ds) \<le> 1"
    unfolding ds_def using reachable_filter_JStr by blast
  have third:
    "(\<forall>i<length ds. deviceId (ds ! i) = JStr s \<longrightarrow> ds' = ds[i := entry]) \<and>
     ((\<forall>d\<in>set ds. deviceId d \<noteq> JStr s) \<longrightarrow> ds' = ds @ [entry]) \<and>
     filter (\<lambda>d. deviceId d = JStr s) ds' = [entry]"
    if assms: "route req = RegisterDevice" "checkApiKey e req = None"
      "field req ''deviceId'' = JStr s" "s \<noteq> []"
      "truthy (field req ''botToken'')" "truthy (field req ''chatId'')"
  proof -
    have step: "ds' = devices (snd (handle_registerDevice e req (run rs initial)))"
      using assms(1,2) by (simp add: ds'_def run_append app_def protected_pass)
    have valid: "truthy (field req ''deviceId'')" using assms(3,4) by simp
    let ?P = "\<lambda>d. strict_eq (deviceId d) (field req ''deviceId'')"
    have P_iff: "?P d \<longleftrightarrow> deviceId d = JStr s" for d
      using assms(3) by (simp add: strict_eq_JStr_iff)
    have upd: "ds' = ds[i := entry]" if "i < length ds" "deviceId (ds ! i) = JStr s" for i
    proof -
      from that have "\<exists>x\<in>set ds. ?P x" using P_iff nth_mem by blast
      then obtain j where j: "findIndex ?P ds = Some j"
        using findIndex_Some_iff_ex [of ?P ds] by blast
      from findIndex_Some [OF j] have jl: "j < length ds" and jm: "deviceId (ds ! j) = JStr s"
        using P_iff by auto
      have "j = i"
      proof (rule ccontr)
        assume "j \<noteq> i"
        with u jl that(1) have "\<not> strict_eq (deviceId (ds ! j)) (deviceId (ds ! i))"
          by (simp add: unique_ids_nth)
        with jm that(2) show False by simp
      qed
      with j valid assms(3,5,6) show ?thesis
        unfolding step ds_def entry_def
        by (simp add: handle_registerDevice_update)
    qed
    have app: "ds' = ds @ [entry]" if "\<forall>d\<in>set ds. deviceId d \<noteq> JStr s"
    proof -
      from that have "findIndex ?P ds = None"
        by (simp add: findIndex_None_iff P_iff)
      with valid assms(3,5,6) show ?thesis
        unfolding step ds_def entry_def
        by (simp add: handle_registerDevice_append)
    qed
    have mem: "entry \<in> set ds'"
    proof (cases "\<forall>d\<in>set ds. deviceId d \<noteq> JStr s")
      case True
      with app show ?thesis by simp
    next
      case False
      then obtain i where "i < length ds" "deviceId (ds ! i) = JStr s"
        by (auto simp: in_set_conv_nth)
      with upd [of i] show ?thesis by (simp add: set_update_memI)
    qed
    have one: "length (filter (\<lambda>d. deviceId d = JStr s) ds') \<le> 1"
      unfolding ds'_def by (rule reachable_filter_JStr)
    have last: "filter (\<lambda>d. deviceId d = JStr s) ds' = [entry]"
      by (rule filter_singleton [OF mem _ one]) (simp add: entry_def)
    from upd app last show ?thesis by blast
  qed
  from first second third show ?thesis
    unfolding ds_def ds'_def entry_def by blast
qed

theorem registry_one_record_per_device_witness:
  "checkApiKey example_env (register_request ''secret'' ''dev1'' ''T2'' ''456'') = None \<and>
   devices (run [(example_env, register_request ''secret'' ''dev1'' ''T'' ''123'')] initial) =
     [\<lparr>deviceId = JStr ''dev1'', botToken = JStr ''T'', chatId = JStr ''123''\<rparr>] \<and>
   devices (run ([(example_env, register_request ''secret'' ''dev1'' ''T'' ''123'')] @
                 [(example_env, register_request ''secret'' ''dev1'' ''T2'' ''456'')]) initial) =
     [\<lparr>deviceId = JStr ''dev1'', botToken = JStr ''T2'', chatId = JStr ''456''\<rparr>] \<and>
   filter (\<lambda>d. deviceId d = JStr ''dev1'')
     (devices (run ([(example_env, register_request ''secret'' ''dev1'' ''T'' ''123'')] @
                 [(example_env, register_request ''secret'' ''dev1'' ''T2'' ''456'')]) initial)) =
     [\<lparr>deviceId = JStr ''dev1'', botToken = JStr ''T2'', chatId = JStr ''456''\<rparr>]"
  using registry_one_record_per_device
      [of "[(example_env, register_request ''secret'' ''dev1'' ''T'' ''123'')]"
        "register_request ''secret'' ''dev1'' ''T2'' ''456''" example_env "''dev1''"]
  by (simp add: register_request_def example_env_def checkApiKey_def header_def field_def
      initial_def app_def protected_def handle_registerDevice_def ToString_def Let_def)

text \<open>
  \<^bold>\<open>C2\<close> (access gate), as the code has it. A \<^verbatim>\<open>POST\<close> request to the path of one of
  the three routes registered behind \<^verbatim>\<open>checkApiKey\<close>, which the packages of lines 19 to 21
  pass on and the limiter lets through, and whose \<^verbatim>\<open>X-Api-Key\<close> header is absent or
  differs from the configured \<^verbatim>\<open>API_KEY\<close>, is answered 401 with the invalid-key
  message. The handler is not entered: the registry and the outbound history are as
  they were.
\<close>

theorem bad_key_unauthorized:
  assumes "early_reply r = None" and "verb r = POST"
    and "same_path ''/api/sendToTelegram'' (pathname r) \<or>
         same_path ''/api/registerDevice'' (pathname r) \<or>
         same_path ''/api/processSms'' (pathname r)"
    and "recent (hits s @ [(ip r, time r)]) (ip r) (time r) \<le> max_requests"
    and "key_header r = None \<or> key_header r \<noteq> API_KEY e"
  shows "fst (server e r s) =
           Routed \<lparr>status = 401,
                   json = [(''status'', JStr ''error''),
                           (''message'', JStr msg_invalid_api_key)]\<rparr> \<and>
         app_state (snd (server e r s)) = app_state s"
proof -
  from assms(2,3) have "route (routed r) \<in> {SendToTelegram, RegisterDevice, ProcessSms}"
    by (auto simp: routed_def route_of_def)
  moreover from assms(5)
  have "checkApiKey e (routed r) =
      Some \<lparr>status = 401,
            json = [(''status'', JStr ''error''), (''message'', JStr msg_invalid_api_key)]\<rparr>"
    by (intro gate_rejects) (simp add: routed_def)
  ultimately have "app e (routed r) (app_state s) =
      (\<lparr>status = 401,
        json = [(''status'', JStr ''error''), (''message'', JStr msg_invalid_api_key)]\<rparr>,
       app_state s)"
    by (auto simp: app_def protected_def)
  with assms(1,4) show ?thesis
    by (simp add: server_def apiLimiter_def Let_def)
qed

theorem bad_key_unauthorized_witness:
  "same_path ''/api/registerDevice''
     (pathname (http_request_at POST ''/api/registerDevice'' 1000 (Some ''guess''))) \<and>
   key_header (http_request_at POST ''/api/registerDevice'' 1000 (Some ''guess'')) \<noteq>
     API_KEY example_env \<and>
   server example_env (http_request_at POST ''/api/registerDevice'' 1000 (Some ''guess''))
       initial_server =
     (Routed \<lparr>status = 401,
              json = [(''status'', JStr ''error''), (''message'', JStr msg_invalid_api_key)]\<rparr>,
      \<lparr>app_state = initial, hits = [(''10.0.0.7'', 1000)]\<rparr>) \<and>
   fst (server example_env (http_request_at POST ''/API/processSms/'' 1000 None)
         initial_server) =
     Routed \<lparr>status = 401,
             json = [(''status'', JStr ''error''), (''message'', JStr msg_invalid_api_key)]\<rparr>"
  using bad_key_unauthorized
      [of "http_request_at POST ''/api/registerDevice'' 1000 (Some ''guess'')" initial_server
        example_env]
    bad_key_unauthorized
      [of "http_request_at POST ''/API/processSms/'' 1000 None" initial_server example_env]
  by (simp add: http_request_at_def initial_server_def example_env_def example_same_path
      example_under_api example_route_of example_recent max_requests_def server_def
      apiLimiter_def routed_def app_def protected_def checkApiKey_def header_def
      error_json_def Let_def)

text \<open>
  The gate does not stand in front of every request under \<^verbatim>\<open>/api\<close>: it is an argument
  of the three \<^verbatim>\<open>app.post\<close> calls only. With no key at all, \<^verbatim>\<open>POST /api/unknown\<close> and
  \<^verbatim>\<open>GET /api/registerDevice\<close> reach the catch-all of line 212 and are answered 404, and a
  request that a body parser refuses is answered by that package before the gate.
\<close>

theorem unknown_api_path_counterexample:
  "under_api ''/api/unknown'' \<and>
   key_header (http_request_at POST ''/api/unknown'' 1000 None) = None \<and>
   server example_env (http_request_at POST ''/api/unknown'' 1000 None) initial_server =
     (Routed \<lparr>status = 404,
              json = [(''status'', JStr ''error''), (''message'', JStr msg_route_not_found)]\<rparr>,
      \<lparr>app_state = initial, hits = [(''10.0.0.7'', 1000)]\<rparr>) \<and>
   fst (server example_env (http_request_at GET ''/api/registerDevice'' 1000 None)
         initial_server) =
     Routed \<lparr>status = 404,
             json = [(''status'', JStr ''error''), (''message'', JStr msg_route_not_found)]\<rparr> \<and>
   fst (server example_env
         ((http_request_at POST ''/api/registerDevice'' 1000 None)\<lparr>early_reply := Some 400\<rparr>)
         initial_server) = Early 400"
  by (simp add: http_request_at_def initial_server_def example_under_api example_route_of
      example_recent max_requests_def server_def apiLimiter_def routed_def app_def
      error_json_def Let_def)

text \<open>
  \<^bold>\<open>C3\<close> (unknown device). A \<^verbatim>\<open>processSms\<close> request that passes the gate, with truthy
  \<open>deviceId\<close>, \<open>sender\<close> and \<open>message\<close>, whose \<open>deviceId\<close> matches no entry of the
  registry, is answered 404 with the not-registered message; the state, and with it the
  outbound history, is unchanged: no POST is attempted.
\<close>

theorem unregistered_device_not_found:
  assumes "route req = ProcessSms" and "checkApiKey e req = None"
    and "truthy (field req ''deviceId'')" and "truthy (field req ''sender'')"
    and "truthy (field req ''message'')"
    and "\<forall>d\<in>set (devices st). \<not> strict_eq (deviceId d) (field req ''deviceId'')"
  shows "app e req st =
           (\<lparr>status = 404, json = error_json msg_device_not_registered\<rparr>, st)"
proof -
  from assms(6)
  have "find (\<lambda>d. strict_eq (deviceId d) (field req ''deviceId'')) (devices st) = None"
    by (simp add: find_None_iff)
  with assms(1-5) show ?thesis
    by (simp add: app_def protected_pass handle_processSms_def Let_def)
qed

theorem unregistered_device_not_found_witness:
  "checkApiKey example_env (sms_request ''dev2'' ''+1555'' ''hello'') = None \<and>
   find (\<lambda>d. strict_eq (deviceId d) (JStr ''dev2'')) (devices registered_state) = None \<and>
   app example_env (sms_request ''dev2'' ''+1555'' ''hello'') registered_state =
     (\<lparr>status = 404, json = error_json msg_device_not_registered\<rparr>, registered_state)"
  using unregistered_device_not_found [of "sms_request ''dev2'' ''+1555'' ''hello''"
      example_env registered_state]
  by (simp add: sms_request_def example_env_def registered_state_def checkApiKey_def
      header_def field_def)

text \<open>
  \<^bold>\<open>C4\<close> (missing field). On each of the three protected routes, a request that passes
  the gate and lacks one of the route's required fields (the field is absent from the
  body, or more generally falsy) is answered 400 with the route's missing-parameters
  message, and the state is returned unchanged: no registry mutation, no POST.
\<close>

theorem missing_field_bad_request:
  assumes "checkApiKey e req = None"
  shows "(route req = SendToTelegram \<and>
            (\<exists>k\<in>{''botToken'', ''chatId'', ''message''}.
               body req k = None \<or> \<not> truthy (field req k)) \<longrightarrow>
          app e req st = (\<lparr>status = 400, json = error_json msg_missing_send\<rparr>, st)) \<and>
         (route req = RegisterDevice \<and>
            (\<exists>k\<in>{''deviceId'', ''botToken'', ''chatId''}.
               body req k = None \<or> \<not> truthy (field req k)) \<longrightarrow>
          app e req st = (\<lparr>status = 400, json = error_json msg_missing_register\<rparr>, st)) \<and>
         (route req = ProcessSms \<and>
            (\<exists>k\<in>{''deviceId'', ''sender'', ''message''}.
               body req k = None \<or> \<not> truthy (field req k)) \<longrightarrow>
          app e req st = (\<lparr>status = 400, json = error_json msg_missing_sms\<rparr>, st))"
proof (intro conjI impI)
  assume "route req = SendToTelegram \<and>
    (\<exists>k\<in>{''botToken'', ''chatId'', ''message''}. body req k = None \<or> \<not> truthy (field req k))"
  then have r: "route req = SendToTelegram"
    and "\<not> truthy (field req ''botToken'') \<or> \<not> truthy (field req ''chatId'') \<or>
         \<not> truthy (field req ''message'')"
    using field_absent [of req] by auto
  with assms show "app e req st = (\<lparr>status = 400, json = error_json msg_missing_send\<rparr>, st)"
    by (auto simp: app_def protected_pass handle_sendToTelegram_def Let_def)
next
  assume "route req = RegisterDevice \<and>
    (\<exists>k\<in>{''deviceId'', ''botToken'', ''chatId''}. body req k = None \<or> \<not> truthy (field req k))"
  then have r: "route req = RegisterDevice"
    and "\<not> truthy (field req ''deviceId'') \<or> \<not> truthy (field req ''botToken'') \<or>
         \<not> truthy (field req ''chatId'')"
    using field_absent [of req] by auto
  with assms show "app e req st = (\<lparr>status = 400, json = error_json msg_missing_register\<rparr>, st)"
    by (simp add: app_def protected_pass handle_registerDevice_invalid)
next
  assume "route req = ProcessSms \<and>
    (\<exists>k\<in>{''deviceId'', ''sender'', ''message''}. body req k = None \<or> \<not> truthy (field req k))"
  then have r: "route req = ProcessSms"
    and "\<not> truthy (field req ''deviceId'') \<or> \<not> truthy (field req ''sender'') \<or>
         \<not> truthy (field req ''message'')"
    using field_absent [of req] by auto
  with assms show "app e req st = (\<lparr>status = 400, json = error_json msg_missing_sms\<rparr>, st)"
    by (auto simp: app_def protected_pass handle_processSms_def Let_def)
qed

theorem missing_field_bad_request_witness:
  "checkApiKey example_env (incomplete_request ProcessSms) = None \<and>
   body (incomplete_request ProcessSms) ''message'' = None \<and>
   \<not> truthy (field (incomplete_request RegisterDevice) ''chatId'') \<and>
   app example_env (incomplete_request SendToTelegram) registered_state =
     (\<lparr>status = 400, json = error_json msg_missing_send\<rparr>, registered_state) \<and>
   app example_env (incomplete_request RegisterDevice) registered_state =
     (\<lparr>status = 400, json = error_json msg_missing_register\<rparr>, registered_state) \<and>
   app example_env (incomplete_request ProcessSms) registered_state =
     (\<lparr>status = 400, json = error_json msg_missing_sms\<rparr>, registered_state)"
  using missing_field_bad_request [of example_env "incomplete_request SendToTelegram" registered_state]
    missing_field_bad_request [of example_env "incomplete_request RegisterDevice" registered_state]
    missing_field_bad_request [of example_env "incomplete_request ProcessSms" registered_state]
  by (simp add: incomplete_request_def example_env_def checkApiKey_def header_def field_def)

text \<open>
  \<^bold>\<open>C5\<close> (relaying an SMS), as the code has it. Take a \<^verbatim>\<open>processSms\<close> request that
  passes the gate, with truthy \<open>deviceId\<close>, \<open>sender\<close> and \<open>message\<close> and a registered
  device. When \<open>sender\<close>, \<open>message\<close>, the stored \<open>botToken\<close> and, if it is truthy,
  \<open>timestamp\<close> convert to strings (as every string does), exactly one POST is made, to
  the URL of the stored \<open>botToken\<close> with the stored \<open>chatId\<close>; its text is the template
  of lines 174 to 177 around the sender, the message and the time string:
  \<^verbatim>\<open>toLocaleString('ru-RU')\<close> of \<^verbatim>\<open>parseInt(timestamp)\<close> when \<open>timestamp\<close> is truthy, and
  of the current time when it is falsy, which an absent field is. When one of these
  conversions throws, no POST is made and the answer is 500. The registry is unchanged
  either way.
\<close>

theorem process_sms_relays_once:
  assumes "route req = ProcessSms" and "checkApiKey e req = None"
    and "truthy (field req ''deviceId'')" and "truthy (field req ''sender'')"
    and "truthy (field req ''message'')"
    and "find (\<lambda>d. strict_eq (deviceId d) (field req ''deviceId'')) (devices st) = Some dev"
  shows "(ToString e (field req ''sender'') = Inr s \<and>
          ToString e (field req ''message'') = Inr m \<and>
          ToString e (botToken dev) = Inr t \<and>
          (truthy (field req ''timestamp'') \<longrightarrow>
             ToString e (field req ''timestamp'') = Inr ts) \<longrightarrow>
          outbound (snd (app e req st)) =
            outbound st @
              [\<lparr>url = ''https://api.telegram.org/bot'' @ t @ ''/sendMessage'',
                chat_id = chatId dev,
                text_field = JStr (txt_new_sms @ txt_from @ s @ txt_from_end @ txt_time @
                   (if truthy (field req ''timestamp'')
                    then toLocaleString e (parseInt e ts)
                    else toLocaleString e (now e)) @
                   txt_time_end @ txt_message @ m),
                parse_mode = ''HTML''\<rparr>]) \<and>
         (isl (ToString e (field req ''sender'')) \<or>
          isl (ToString e (field req ''message'')) \<or>
          isl (ToString e (botToken dev)) \<or>
          truthy (field req ''timestamp'') \<and> isl (ToString e (field req ''timestamp'')) \<longrightarrow>
          outbound (snd (app e req st)) = outbound st \<and>
          status (fst (app e req st)) = 500) \<and>
         devices (snd (app e req st)) = devices st \<and>
         (body req ''timestamp'' = None \<longrightarrow> \<not> truthy (field req ''timestamp''))"
proof -
  have a: "app e req st = handle_processSms e req st"
    using assms(1,2) by (simp add: app_def protected_pass)
  have ok: "outbound (snd (handle_processSms e req st)) =
      outbound st @
        [\<lparr>url = ''https://api.telegram.org/bot'' @ t @ ''/sendMessage'',
          chat_id = chatId dev,
          text_field = JStr (txt_new_sms @ txt_from @ s @ txt_from_end @ txt_time @
             (if truthy (field req ''timestamp'')
              then toLocaleString e (parseInt e ts)
              else toLocaleString e (now e)) @
             txt_time_end @ txt_message @ m),
          parse_mode = ''HTML''\<rparr>]"
    if c: "ToString e (field req ''sender'') = Inr s"
      "ToString e (field req ''message'') = Inr m"
      "ToString e (botToken dev) = Inr t"
      "truthy (field req ''timestamp'') \<longrightarrow> ToString e (field req ''timestamp'') = Inr ts"
  proof -
    have ft: "formattedTime e (field req ''timestamp'') =
        Inr (if truthy (field req ''timestamp'') then toLocaleString e (parseInt e ts)
             else toLocaleString e (now e))"
      using c(4) by (simp add: formattedTime_def)
    have tm: "telegramMessage e (field req ''sender'') time (field req ''message'') =
        Inr (txt_new_sms @ txt_from @ s @ txt_from_end @ txt_time @ time @ txt_time_end @
             txt_message @ m)" for time
      using c(1,2) by (simp add: telegramMessage_def)
    from assms(3-6) c(3) ft tm show ?thesis
      by (simp add: handle_processSms_def sendToTelegram_def Let_def split: option.splits)
  qed
  have bad: "outbound (snd (handle_processSms e req st)) = outbound st \<and>
      status (fst (handle_processSms e req st)) = 500"
    if "isl (ToString e (field req ''sender'')) \<or>
        isl (ToString e (field req ''message'')) \<or>
        isl (ToString e (botToken dev)) \<or>
        truthy (field req ''timestamp'') \<and> isl (ToString e (field req ''timestamp''))"
    using that assms(3-6)
    by (auto simp: handle_processSms_def sendToTelegram_def formattedTime_def
        telegramMessage_def Let_def isl_def split: sum.splits if_splits)
  from ok bad show ?thesis
    by (simp add: a handle_processSms_devices field_absent)
qed

theorem process_sms_relays_once_witness:
  "checkApiKey example_env (sms_request ''dev1'' ''+1555'' ''hello'') = None \<and>
   find (\<lambda>d. strict_eq (deviceId d) (JStr ''dev1'')) (devices registered_state) =
     Some \<lparr>deviceId = JStr ''dev1'', botToken = JStr ''T'', chatId = JStr ''123''\<rparr> \<and>
   outbound (snd (app example_env (sms_request ''dev1'' ''+1555'' ''hello'') registered_state)) =
     [\<lparr>url = ''https://api.telegram.org/botT/sendMessage'', chat_id = JStr ''123'',
       text_field = JStr (txt_new_sms @ txt_from @ ''+1555'' @ txt_from_end @ txt_time @
          ''14.11.2023, 22:13:20'' @ txt_time_end @ txt_message @ ''hello''),
       parse_mode = ''HTML''\<rparr>] \<and>
   map text_field (outbound (snd (app example_env
       (sms_request_at ''dev1'' ''+1555'' ''hello'' (JStr ''0'')) registered_state))) =
     [JStr (txt_new_sms @ txt_from @ ''+1555'' @ txt_from_end @ txt_time @
          ''01.01.1970, 00:00:00'' @ txt_time_end @ txt_message @ ''hello'')] \<and>
   isl (ToString example_env (JObj [(''toString'', JNum (Finite 1))])) \<and>
   outbound (snd (app example_env
       (sms_request_at ''dev1'' ''+1555'' ''hello'' (JObj [(''toString'', JNum (Finite 1))]))
       registered_state)) = [] \<and>
   status (fst (app example_env
       (sms_request_at ''dev1'' ''+1555'' ''hello'' (JObj [(''toString'', JNum (Finite 1))]))
       registered_state)) = 500"
  using process_sms_relays_once [of "sms_request ''dev1'' ''+1555'' ''hello''" example_env
      registered_state "\<lparr>deviceId = JStr ''dev1'', botToken = JStr ''T'', chatId = JStr ''123''\<rparr>"
      "''+1555''" "''hello''" "''T''" "''0''"]
    process_sms_relays_once [of "sms_request_at ''dev1'' ''+1555'' ''hello'' (JStr ''0'')"
      example_env registered_state
      "\<lparr>deviceId = JStr ''dev1'', botToken = JStr ''T'', chatId = JStr ''123''\<rparr>"
      "''+1555''" "''hello''" "''T''" "''0''"]
    process_sms_relays_once
      [of "sms_request_at ''dev1'' ''+1555'' ''hello'' (JObj [(''toString'', JNum (Finite 1))])"
        example_env registered_state
        "\<lparr>deviceId = JStr ''dev1'', botToken = JStr ''T'', chatId = JStr ''123''\<rparr>"
        "''+1555''" "''hello''" "''T''" "''0''"]
  by (simp add: sms_request_def sms_request_at_def example_env_def registered_state_def
      checkApiKey_def header_def field_def ToString_def)

text \<open>
  The time is not taken from every \<open>timestamp\<close> that is present: line 170 tests its
  truthiness. With the registered device \<open>dev1\<close> and the body
  \<^verbatim>\<open>{deviceId: "dev1", sender: "+1555", message: "hello", timestamp: 0}\<close> the field is
  present and holds the epoch-milliseconds value \<open>0\<close>, yet the text relayed carries the
  rendering of the current time, not that of \<open>0\<close>.
\<close>

theorem timestamp_zero_counterexample:
  "body (sms_request_at ''dev1'' ''+1555'' ''hello'' (JNum (Finite 0))) ''timestamp'' =
     Some (JNum (Finite 0)) \<and>
   map text_field (outbound (snd (app example_env
       (sms_request_at ''dev1'' ''+1555'' ''hello'' (JNum (Finite 0))) registered_state))) =
     [JStr (txt_new_sms @ txt_from @ ''+1555'' @ txt_from_end @ txt_time @
          toLocaleString example_env (now example_env) @
          txt_time_end @ txt_message @ ''hello'')] \<and>
   map text_field (outbound (snd (app example_env
       (sms_request_at ''dev1'' ''+1555'' ''hello'' (JNum (Finite 0))) registered_state))) \<noteq>
     [JStr (txt_new_sms @ txt_from @ ''+1555'' @ txt_from_end @ txt_time @
          toLocaleString example_env (parseInt example_env ''0'') @
          txt_time_end @ txt_message @ ''hello'')] \<and>
   toPrimitiveString example_env (JNum (Finite 0)) = Inr ''0''"
  by (simp add: sms_request_at_def example_env_def registered_state_def app_def protected_def
      checkApiKey_def header_def field_def handle_processSms_def sendToTelegram_def
      ToString_def formattedTime_def telegramMessage_def Let_def)

text \<open>
  \<^bold>\<open>C6\<close> (relay failure). A \<^verbatim>\<open>sendToTelegram\<close> request that passes the gate with three
  truthy fields, whose POST (to the URL built from the token) is rejected with an error of
  message \<open>cause\<close>, is answered 500 with the body
  \<^verbatim>\<open>{status: "error", message: ...}\<close> whose message is the text of line 69 followed by
  \<open>cause\<close>. The outbound history grows by exactly that one POST (no retry), and the
  registry is unchanged.
\<close>

theorem relay_failure_surfaces:
  assumes "route req = SendToTelegram" and "checkApiKey e req = None"
    and "truthy (field req ''botToken'')" and "truthy (field req ''chatId'')"
    and "truthy (field req ''message'')"
    and "ToString e (field req ''botToken'') = Inr t"
    and "axios_post e
           \<lparr>url = ''https://api.telegram.org/bot'' @ t @ ''/sendMessage'',
            chat_id = field req ''chatId'', text_field = field req ''message'',
            parse_mode = ''HTML''\<rparr> = Some cause"
  shows "app e req st =
           (\<lparr>status = 500,
             json = [(''status'', JStr ''error''),
                     (''message'', JStr (msg_telegram_error_prefix @ cause))]\<rparr>,
            st\<lparr>outbound := outbound st @
              [\<lparr>url = ''https://api.telegram.org/bot'' @ t @ ''/sendMessage'',
                chat_id = field req ''chatId'', text_field = field req ''message'',
                parse_mode = ''HTML''\<rparr>]\<rparr>)"
  using assms
  by (simp add: app_def protected_pass handle_sendToTelegram_def sendToTelegram_def
      error_json_def Let_def)

theorem relay_failure_surfaces_witness:
  "checkApiKey failing_env (send_request ''bad-token'' ''123'' ''hi'') = None \<and>
   app failing_env (send_request ''bad-token'' ''123'' ''hi'') initial =
     (\<lparr>status = 500,
       json = [(''status'', JStr ''error''),
               (''message'',
                JStr (msg_telegram_error_prefix @ ''Request failed with status code 401''))]\<rparr>,
      \<lparr>devices = [],
       outbound = [\<lparr>url = ''https://api.telegram.org/botbad-token/sendMessage'',
                    chat_id = JStr ''123'', text_field = JStr ''hi'', parse_mode = ''HTML''\<rparr>]\<rparr>)"
  using relay_failure_surfaces [of "send_request ''bad-token'' ''123'' ''hi''" failing_env
      "''bad-token''" "''Request failed with status code 401''" initial]
  by (simp add: send_request_def failing_env_def example_env_def checkApiKey_def header_def
      field_def ToString_def initial_def)







text \<open>
  \<^bold>\<open>C9\<close> (the gate fails closed). When \<^verbatim>\<open>API_KEY\<close> is unset, the gate rejects every
  request to a protected route with 401, whatever the header holds (the request, and so
  its header, is arbitrary), and the state is unchanged.
\<close>

theorem unset_key_fails_closed:
  assumes "route req \<in> {SendToTelegram, RegisterDevice, ProcessSms}"
    and "API_KEY e = None"
  shows "checkApiKey e req = Some \<lparr>status = 401, json = error_json msg_invalid_api_key\<rparr> \<and>
         app e req st = (\<lparr>status = 401, json = error_json msg_invalid_api_key\<rparr>, st)"
proof -
  have "checkApiKey e req = Some \<lparr>status = 401, json = error_json msg_invalid_api_key\<rparr>"
    using assms(2) by (cases "x_api_key req") (auto simp: checkApiKey_def header_def)
  with assms(1) show ?thesis
    by (auto simp: app_def protected_def)
qed

theorem unset_key_fails_closed_witness:
  "route (sms_request ''dev1'' ''+1555'' ''hello'')
     \<in> {SendToTelegram, RegisterDevice, ProcessSms} \<and>
   API_KEY (example_env\<lparr>API_KEY := None\<rparr>) = None \<and>
   app (example_env\<lparr>API_KEY := None\<rparr>) (sms_request ''dev1'' ''+1555'' ''hello'') initial =
     (\<lparr>status = 401, json = error_json msg_invalid_api_key\<rparr>, initial)"
  using unset_key_fails_closed [of "sms_request ''dev1'' ''+1555'' ''hello''"
      "example_env\<lparr>API_KEY := None\<rparr>" initial]
  by (simp add: sms_request_def)

text \<open>
  \<^bold>\<open>C10\<close> (stored fields are truthy). After any sequence of requests from the empty
  registry, every entry has truthy \<open>deviceId\<close>, \<open>botToken\<close> and \<open>chatId\<close>. The empty
  string, \<open>0\<close>, \<open>false\<close> and \<open>null\<close> are falsy, and a \<^verbatim>\<open>registerDevice\<close> request with a
  falsy required field leaves the registry as it was. Hence a \<^verbatim>\<open>processSms\<close> request
  either makes no POST, or makes one POST whose token and chat identifier are the truthy
  \<open>botToken\<close> and \<open>chatId\<close> of an entry of the registry.
\<close>

theorem registry_fields_truthy:
  "(\<forall>d\<in>set (devices (run rs initial)).
      truthy (deviceId d) \<and> truthy (botToken d) \<and> truthy (chatId d)) \<and>
   \<not> truthy (JStr []) \<and> \<not> truthy (JNum (Finite 0)) \<and> \<not> truthy (JBool False) \<and>
   \<not> truthy JNull \<and>
   (route req = RegisterDevice \<and>
      (\<exists>k\<in>{''deviceId'', ''botToken'', ''chatId''}. \<not> truthy (field req k)) \<longrightarrow>
    devices (snd (app e req st)) = devices st) \<and>
   (route req = ProcessSms \<longrightarrow>
      outbound (snd (app e req (run rs initial))) = outbound (run rs initial) \<or>
      (\<exists>d\<in>set (devices (run rs initial)). \<exists>t txt.
         truthy (botToken d) \<and> truthy (chatId d) \<and>
         ToString e (botToken d) = Inr t \<and>
         outbound (snd (app e req (run rs initial))) =
           outbound (run rs initial) @
             [\<lparr>url = ''https://api.telegram.org/bot'' @ t @ ''/sendMessage'',
               chat_id = chatId d, text_field = JStr txt, parse_mode = ''HTML''\<rparr>]))"
proof -
  have inv: "\<forall>d\<in>set (devices (run rs initial)).
      truthy (deviceId d) \<and> truthy (botToken d) \<and> truthy (chatId d)"
    using reachable_truthy [of rs] by (simp add: all_truthy_def)
  have rej: "devices (snd (app e req st)) = devices st"
    if "route req = RegisterDevice \<and>
      (\<exists>k\<in>{''deviceId'', ''botToken'', ''chatId''}. \<not> truthy (field req k))"
  proof -
    from that have "\<not> truthy (field req ''deviceId'') \<or> \<not> truthy (field req ''botToken'') \<or>
        \<not> truthy (field req ''chatId'')" by auto
    with that show ?thesis
      by (cases "checkApiKey e req")
        (simp_all add: app_def protected_def handle_registerDevice_invalid)
  qed
  have sms: "outbound (snd (app e req (run rs initial))) = outbound (run rs initial) \<or>
      (\<exists>d\<in>set (devices (run rs initial)). \<exists>t txt.
         truthy (botToken d) \<and> truthy (chatId d) \<and>
         ToString e (botToken d) = Inr t \<and>
         outbound (snd (app e req (run rs initial))) =
           outbound (run rs initial) @
             [\<lparr>url = ''https://api.telegram.org/bot'' @ t @ ''/sendMessage'',
               chat_id = chatId d, text_field = JStr txt, parse_mode = ''HTML''\<rparr>])"
    if r: "route req = ProcessSms"
  proof (cases "checkApiKey e req")
    case (Some a)
    with r show ?thesis by (simp add: app_def protected_def)
  next
    case None
    with r have "app e req (run rs initial) = handle_processSms e req (run rs initial)"
      by (simp add: app_def protected_def)
    with handle_processSms_outbound [of e req "run rs initial"] inv show ?thesis
      by fastforce
  qed
  from inv rej sms show ?thesis by simp
qed

theorem registry_fields_truthy_witness:
  "devices (run [(example_env, register_request ''secret'' ''dev1'' ''T'' ''123'')] initial) =
     [\<lparr>deviceId = JStr ''dev1'', botToken = JStr ''T'', chatId = JStr ''123''\<rparr>] \<and>
   truthy (JStr ''T'') \<and> truthy (JStr ''123'') \<and>
   devices (snd (app example_env (incomplete_request RegisterDevice) registered_state)) =
     devices registered_state \<and>
   map url (outbound (snd (app example_env (sms_request ''dev1'' ''+1555'' ''hello'')
      (run [(example_env, register_request ''secret'' ''dev1'' ''T'' ''123'')] initial)))) =
     [''https://api.telegram.org/botT/sendMessage''] \<and>
   map chat_id (outbound (snd (app example_env (sms_request ''dev1'' ''+1555'' ''hello'')
      (run [(example_env, register_request ''secret'' ''dev1'' ''T'' ''123'')] initial)))) =
     [JStr ''123'']"
  using registry_fields_truthy [of "[(example_env, register_request ''secret'' ''dev1'' ''T'' ''123'')]"
      "incomplete_request RegisterDevice" example_env registered_state]
    registry_fields_truthy [of "[(example_env, register_request ''secret'' ''dev1'' ''T'' ''123'')]"
      "sms_request ''dev1'' ''+1555'' ''hello''" example_env registered_state]
  by (simp add: register_request_def sms_request_def incomplete_request_def example_env_def
      registered_state_def checkApiKey_def header_def field_def initial_def app_def
      protected_def handle_registerDevice_def handle_processSms_def sendToTelegram_def
      ToString_def formattedTime_def telegramMessage_def Let_def)

end
